theory Spec2Isabelle
  imports Complex_Main "HOL-Library.Monad_Syntax" "HOL-Library.Char_ord"
    "HOL-Library.List_Lexorder" "HOL-Library.Product_Lexorder"
begin

section \<open>Requests, responses and the caller\<close>

text \<open>
  The handlers of the booking backend are modelled as functions from the request and the
  database to a response and the database after the call. Numbers are exact rationals
  (JavaScript's doubles and the DECIMAL columns agree with them on the amounts used here),
  a JSON value that may be absent is an \<open>option\<close>, and a SQL table is the list of its
  rows. Strings compare by equality.
\<close>

datatype identity_type = Hotel | Corporate

text \<open>The decoded token payload, \<open>req.user\<close> of \<open>AuthRequest\<close>.\<close>

record auth_user =
  user_id :: int
  user_email :: string
  user_role :: string
  user_identityType :: "identity_type option"

datatype booking_status = Pending | Confirmed | Rejected | Cancelled | Completed | No_show

datatype payment_status = Pay_pending | Pay_completed | Pay_failed | Pay_refunded

section \<open>Tables\<close>

text \<open>Table \<open>room_types\<close> of schema.sql.\<close>

record room_type =
  rt_Id :: int
  rt_HotelDetails_Id :: int
  rt_Name :: string
  rt_Description :: "string option"
  rt_Capacity :: int
  rt_BasePrice :: rat
  rt_CorporatePrice :: "rat option"
  rt_Amenities :: "string list option"
  rt_IsActive :: bool

text \<open>Table \<open>bookings\<close> of schema.sql; dates are epoch milliseconds.\<close>

record booking =
  bk_Id :: int
  bk_BookingNumber :: string
  bk_UserId :: int
  bk_CorporateDetails_Id :: "int option"
  bk_HotelDetails_Id :: int
  bk_RoomTypes_Id :: int
  bk_CheckInDate :: int
  bk_CheckOutDate :: int
  bk_RoomQuantity :: int
  bk_GuestCount :: int
  bk_GuestName :: string
  bk_GuestEmail :: string
  bk_GuestPhone :: "string option"
  bk_SpecialRequests :: "string option"
  bk_TotalPrice :: rat
  bk_Discount :: rat
  bk_FinalPrice :: "rat option"
  bk_PaymentStatus :: payment_status
  bk_BookingStatus :: booking_status
  bk_ApprovedAt :: "nat option"
  bk_RejectionReason :: "string option"
  bk_CreatedAt :: nat
  bk_UpdatedAt :: nat

text \<open>
  Tables \<open>users\<close>, \<open>HotelDetails\<close> and \<open>CorporateDetails\<close>: the columns the handlers
  read.
\<close>

record user_row =
  u_id :: int
  u_email :: string
  u_password :: "string option"
  u_role :: string
  u_corporateClientId :: "int option"
  u_identityType :: "identity_type option"
  u_isProfileCompleted :: bool
  u_isActive :: bool

record hotel_details =
  hd_Id :: int
  hd_userId :: int
  hd_HotelName :: string
  hd_City :: string
  hd_State :: "string option"
  hd_Country :: "string option"
  hd_Pincode :: "string option"
  hd_Address :: "string option"
  hd_StarCategory :: "int option"

record corporate_details =
  cd_Id :: int
  cd_userId :: int
  cd_CompanyName :: string

text \<open>Table \<open>HotelPosts\<close> of schema.sql.\<close>

record hotel_post =
  hp_Id :: int
  hp_HotelDetails_Id :: int
  hp_Title :: string
  hp_Description :: "string option"
  hp_Price :: "rat option"
  hp_MinPrice :: "rat option"
  hp_MaxPrice :: "rat option"
  hp_AvailableDate :: "string option"
  hp_StartDate :: "string option"
  hp_EndDate :: "string option"
  hp_CreatedAt :: nat

record database =
  users :: "user_row list"
  HotelDetails :: "hotel_details list"
  CorporateDetails :: "corporate_details list"
  HotelPosts :: "hotel_post list"
  room_types :: "room_type list"
  bookings :: "booking list"

section \<open>utils/helpers.ts\<close>

text \<open>
  JavaScript truthiness: an absent value, the number 0 and the empty string are falsy.
  \<open>present_num v\<close> and \<open>present_str v\<close> are \<open>v || null\<close>, and \<open>or_num v d\<close> is
  \<open>v || d\<close>.
\<close>

definition present_num :: "'a::zero option \<Rightarrow> 'a option" where
  "present_num v = (case v of None \<Rightarrow> None | Some n \<Rightarrow> if n = 0 then None else Some n)"

definition present_str :: "string option \<Rightarrow> string option" where
  "present_str v = (case v of None \<Rightarrow> None | Some s \<Rightarrow> if s = [] then None else Some s)"

definition or_num :: "'a::zero option \<Rightarrow> 'a \<Rightarrow> 'a" where
  "or_num v d = (case present_num v of None \<Rightarrow> d | Some n \<Rightarrow> n)"

text \<open>Decimal digits of a number, as \<open>Number.prototype.toString\<close> prints an integer.\<close>

definition digit :: "nat \<Rightarrow> char" where
  "digit d = ''0123456789'' ! d"

fun toString :: "nat \<Rightarrow> string" where
  "toString n =
     (if n < 10 then [digit n] else toString (n div 10) @ [digit (n mod 10)])"

definition slice_last :: "nat \<Rightarrow> string \<Rightarrow> string" where
  "slice_last k s = drop (length s - k) s"

definition padStart :: "nat \<Rightarrow> char \<Rightarrow> string \<Rightarrow> string" where
  "padStart k c s = replicate (k - length s) c @ s"

text \<open>
  \<open>generateBookingNumber\<close>: \<open>now\<close> is \<open>Date.now()\<close> and \<open>rnd\<close> is
  \<open>Math.floor(Math.random() * 10000)\<close>.
\<close>

definition generateBookingNumber :: "nat \<Rightarrow> nat \<Rightarrow> string" where
  "generateBookingNumber now rnd =
     ''BK'' @ slice_last 6 (toString now) @ padStart 4 (CHR ''0'') (toString rnd)"

definition calculateTotalPrice :: "rat \<Rightarrow> rat \<Rightarrow> rat" where
  "calculateTotalPrice pricePerNight nights = pricePerNight * nights"

definition getHotelDetailsId :: "database \<Rightarrow> int \<Rightarrow> int option" where
  "getHotelDetailsId db userId =
     (case filter (\<lambda>h. hd_userId h = userId) (HotelDetails db) of
        [] \<Rightarrow> None
      | h # _ \<Rightarrow> Some (hd_Id h))"

definition getCorporateDetailsId :: "database \<Rightarrow> int \<Rightarrow> int option" where
  "getCorporateDetailsId db userId =
     (case filter (\<lambda>c. cd_userId c = userId) (CorporateDetails db) of
        [] \<Rightarrow> None
      | c # _ \<Rightarrow> Some (cd_Id c))"

section \<open>routes/bookings.ts\<close>

text \<open>
  Body of \<open>POST /bookings\<close>, as the handler destructures it. A date is a text that
  \<open>new Date()\<close> reads and the DATE column accepts, given by its epoch milliseconds.
\<close>

record booking_request =
  hotelDetailsId :: "int option"
  roomTypeId :: "int option"
  checkInDate :: "int option"
  checkOutDate :: "int option"
  guestName :: "string option"
  guestEmail :: "string option"
  guestPhone :: "string option"
  guestCount :: "int option"
  roomCount :: "int option"
  specialRequests :: "string option"

text \<open>
  What a handler sends: \<open>res.status(n).json(body)\<close>. A joined row carries the booking and
  the columns the query adds to it.
\<close>

record hotel_summary =
  hs_hotel :: hotel_details
  hs_roomTypeCount :: nat
  hs_minPrice :: "rat option"
  hs_maxPrice :: "rat option"
  hs_minCorpPrice :: "rat option"
  hs_maxCapacity :: "int option"
  hs_roomTypeNames :: "string list"

datatype body =
    Error string
  | Errors "string list"
  | Message string
  | BookingCreated int string rat int
  | UserBookings "(booking \<times> string \<times> string \<times> string option) list"
  | HotelBookings "(booking \<times> string option \<times> string option) list"
  | BookingDetails "booking \<times> string \<times> string \<times> string option \<times> string option"
  | LoggedIn string int string string "int option" "identity_type option" bool
  | HotelPage "hotel_summary list" nat rat rat int

datatype response = Response nat body

text \<open>The required fields of the request, when none of them is falsy.\<close>

definition required_fields ::
  "booking_request \<Rightarrow> (int \<times> int \<times> int \<times> int \<times> string \<times> string) option" where
  "required_fields req =
     do {
       h \<leftarrow> present_num (hotelDetailsId req);
       r \<leftarrow> present_num (roomTypeId req);
       ci \<leftarrow> checkInDate req;
       co \<leftarrow> checkOutDate req;
       gn \<leftarrow> present_str (guestName req);
       ge \<leftarrow> present_str (guestEmail req);
       Some (h, r, ci, co, gn, ge)
     }"

text \<open>\<open>Math.ceil((checkOut.getTime() - checkIn.getTime()) / (1000 * 60 * 60 * 24))\<close>\<close>

definition nights_between :: "int \<Rightarrow> int \<Rightarrow> int" where
  "nights_between checkIn checkOut =
     \<lceil>(of_int (checkOut - checkIn) :: rat) / (1000 * 60 * 60 * 24)\<rceil>"

text \<open>AUTO_INCREMENT: an id above every stored one.\<close>

definition next_id :: "int list \<Rightarrow> int" where
  "next_id ids = fold max ids 0 + 1"

text \<open>
  Column types of schema.sql, under the server's strict mode: a number outside the range of
  its column and a text longer than its column are refused, and a number with more decimals
  than a DECIMAL column keeps is rounded to the column's scale, half away from zero.
\<close>

definition round_half_away :: "rat \<Rightarrow> int" where
  "round_half_away x = (if 0 \<le> x then \<lfloor>x + 1 / 2\<rfloor> else - \<lfloor>- x + 1 / 2\<rfloor>)"

definition as_DECIMAL :: "nat \<Rightarrow> nat \<Rightarrow> rat \<Rightarrow> rat option" where
  "as_DECIMAL digits decimals x =
     (let v = round_half_away (x * 10 ^ decimals)
      in if \<bar>v\<bar> < 10 ^ digits then Some (of_int v / 10 ^ decimals) else None)"

definition fits_INT :: "int \<Rightarrow> bool" where
  "fits_INT n = (- (2 ^ 31) \<le> n \<and> n < 2 ^ 31)"

definition fits_VARCHAR :: "nat \<Rightarrow> string \<Rightarrow> bool" where
  "fits_VARCHAR n s = (length s \<le> n)"


text \<open>
  The row as the table \<open>bookings\<close> holds it, when its values fit the columns:
  \<open>TotalPrice DECIMAL(12, 2)\<close>, \<open>RoomQuantity INT\<close>, \<open>GuestCount INT\<close>,
  \<open>BookingNumber VARCHAR(50)\<close>, \<open>GuestName VARCHAR(255)\<close>, \<open>GuestEmail VARCHAR(255)\<close>,
  \<open>GuestPhone VARCHAR(20)\<close>, \<open>SpecialRequests TEXT\<close>.
\<close>

definition column_values :: "booking \<Rightarrow> booking option" where
  "column_values b =
     (case as_DECIMAL 12 2 (bk_TotalPrice b) of
        None \<Rightarrow> None
      | Some stored \<Rightarrow>
          if fits_INT (bk_RoomQuantity b) \<and> fits_INT (bk_GuestCount b)
             \<and> fits_VARCHAR 50 (bk_BookingNumber b)
             \<and> fits_VARCHAR 255 (bk_GuestName b) \<and> fits_VARCHAR 255 (bk_GuestEmail b)
             \<and> (case bk_GuestPhone b of None \<Rightarrow> True | Some phone \<Rightarrow> fits_VARCHAR 20 phone)
             \<and> (case bk_SpecialRequests b of None \<Rightarrow> True | Some t \<Rightarrow> fits_VARCHAR 65535 t)
          then Some (b\<lparr>bk_TotalPrice := stored\<rparr>)
          else None)"

text \<open>
  The INSERT into \<open>bookings\<close>. The storage layer rejects the row, and \<open>executeQuery\<close>
  throws, when a value does not fit its column, when its \<open>BookingNumber\<close> is already
  stored (UNIQUE), or when the account, the corporate profile, the hotel or the room type
  it refers to does not exist (the foreign keys of the table).
\<close>

definition foreign_keys_hold :: "booking \<Rightarrow> database \<Rightarrow> bool" where
  "foreign_keys_hold b db =
     (bk_UserId b \<in> set (map u_id (users db))
      \<and> (case bk_CorporateDetails_Id b of
            None \<Rightarrow> True
          | Some c \<Rightarrow> c \<in> set (map cd_Id (CorporateDetails db)))
      \<and> bk_HotelDetails_Id b \<in> set (map hd_Id (HotelDetails db))
      \<and> bk_RoomTypes_Id b \<in> set (map rt_Id (room_types db)))"

definition insert_booking :: "(int \<Rightarrow> booking) \<Rightarrow> database \<Rightarrow> (int \<times> database) option" where
  "insert_booking row db =
     (let insertId = next_id (map bk_Id (bookings db))
      in case column_values (row insertId) of
           None \<Rightarrow> None
         | Some b \<Rightarrow>
             if bk_BookingNumber b \<in> set (map bk_BookingNumber (bookings db))
                \<or> \<not> foreign_keys_hold b db
             then None
             else Some (insertId, db\<lparr>bookings := bookings db @ [b]\<rparr>))"

text \<open>
  \<open>CorporatePrice || BasePrice\<close> on the values \<open>executeQuery\<close> returns. The driver
  returns a DECIMAL column as a number when the pool sets mysql2's \<open>decimalNumbers\<close>
  option, and as its decimal text otherwise; the text is truthy also for 0.00.
  connection.ts creates the pool without the option; the model takes the setting as a
  parameter. NULL is falsy either way.
\<close>

definition price_or :: "bool \<Rightarrow> rat option \<Rightarrow> rat \<Rightarrow> rat" where
  "price_or decimalNumbers corporatePrice basePrice =
     (case corporatePrice of
        None \<Rightarrow> basePrice
      | Some c \<Rightarrow> if decimalNumbers \<and> c = 0 then basePrice else c)"

text \<open>\<open>router.post('/')\<close>: a corporate caller asks for a booking.\<close>

definition create_booking ::
  "bool \<Rightarrow> nat \<Rightarrow> nat \<Rightarrow> auth_user \<Rightarrow> booking_request \<Rightarrow> database \<Rightarrow> response \<times> database"
  where
  "create_booking decimalNumbers now rnd user req db =
     (if user_identityType user \<noteq> Some Corporate
      then (Response 403 (Error ''Only corporate users can make bookings''), db)
      else case required_fields req of
        None \<Rightarrow> (Response 400 (Error ''Missing required fields''), db)
      | Some (hotelId, rtId, checkIn, checkOut, gName, gEmail) \<Rightarrow>
         (case filter (\<lambda>rt. rt_Id rt = rtId \<and> rt_HotelDetails_Id rt = hotelId \<and> rt_IsActive rt)
                 (room_types db) of
            [] \<Rightarrow> (Response 404 (Error ''Room type not found or not available''), db)
          | roomTypeInfo # _ \<Rightarrow>
             (let corporateId = getCorporateDetailsId db (user_id user);
                  pricePerNight = price_or decimalNumbers (rt_CorporatePrice roomTypeInfo)
                                    (rt_BasePrice roomTypeInfo);
                  nights = nights_between checkIn checkOut;
                  numberOfRooms = or_num (roomCount req) 1;
                  totalPrice = calculateTotalPrice pricePerNight (of_int nights) * of_int numberOfRooms;
                  bookingNumber = generateBookingNumber now rnd
              in case insert_booking
                   (\<lambda>insertId. \<lparr>bk_Id = insertId, bk_BookingNumber = bookingNumber,
                      bk_UserId = user_id user, bk_CorporateDetails_Id = corporateId,
                      bk_HotelDetails_Id = hotelId, bk_RoomTypes_Id = rtId,
                      bk_CheckInDate = checkIn, bk_CheckOutDate = checkOut,
                      bk_RoomQuantity = numberOfRooms, bk_GuestCount = or_num (guestCount req) 1,
                      bk_GuestName = gName, bk_GuestEmail = gEmail,
                      bk_GuestPhone = present_str (guestPhone req),
                      bk_SpecialRequests = present_str (specialRequests req),
                      bk_TotalPrice = totalPrice, bk_Discount = 0, bk_FinalPrice = None,
                      bk_PaymentStatus = Pay_pending, bk_BookingStatus = Pending,
                      bk_ApprovedAt = None, bk_RejectionReason = None,
                      bk_CreatedAt = now, bk_UpdatedAt = now\<rparr>) db of
                   None \<Rightarrow> (Response 500 (Error ''Failed to create booking''), db)
                 | Some (insertId, db') \<Rightarrow>
                     (Response 201 (BookingCreated insertId bookingNumber totalPrice nights), db'))))"

definition status_name :: "booking_status \<Rightarrow> string" where
  "status_name s = (case s of Pending \<Rightarrow> ''pending'' | Confirmed \<Rightarrow> ''confirmed''
     | Rejected \<Rightarrow> ''rejected'' | Cancelled \<Rightarrow> ''cancelled'' | Completed \<Rightarrow> ''completed''
     | No_show \<Rightarrow> ''no_show'')"

text \<open>The optional \<open>AND b.BookingStatus = ?\<close> of both list queries.\<close>

definition status_filter :: "string option \<Rightarrow> booking \<Rightarrow> bool" where
  "status_filter status b =
     (case present_str status of None \<Rightarrow> True | Some s \<Rightarrow> status_name (bk_BookingStatus b) = s)"

text \<open>\<open>LEFT JOIN room_types rt ON b.RoomTypes_Id = rt.Id\<close>, keeping \<open>rt.Name\<close>.\<close>

definition left_join_room_type :: "database \<Rightarrow> booking \<Rightarrow> string option list" where
  "left_join_room_type db b =
     (case filter (\<lambda>rt. rt_Id rt = bk_RoomTypes_Id b) (room_types db) of
        [] \<Rightarrow> [None]
      | rts \<Rightarrow> map (\<lambda>rt. Some (rt_Name rt)) rts)"

text \<open>\<open>LEFT JOIN CorporateDetails cd ON b.CorporateDetails_Id = cd.Id\<close>, keeping the name.\<close>

definition left_join_corporate :: "database \<Rightarrow> booking \<Rightarrow> string option list" where
  "left_join_corporate db b =
     (case filter (\<lambda>c. Some (cd_Id c) = bk_CorporateDetails_Id b) (CorporateDetails db) of
        [] \<Rightarrow> [None]
      | cs \<Rightarrow> map (\<lambda>c. Some (cd_CompanyName c)) cs)"

text \<open>\<open>router.get('/')\<close>: the caller's own bookings, newest first, at most 50.\<close>

definition get_bookings :: "auth_user \<Rightarrow> string option \<Rightarrow> database \<Rightarrow> response" where
  "get_bookings user status db =
     Response 200 (UserBookings (take 50 (sort_key (\<lambda>r. - int (bk_CreatedAt (fst r)))
       [(b, hd_HotelName h, hd_City h, n).
          b \<leftarrow> bookings db, h \<leftarrow> HotelDetails db, bk_HotelDetails_Id b = hd_Id h,
          n \<leftarrow> left_join_room_type db b,
          bk_UserId b = user_id user, status_filter status b])))"

text \<open>\<open>router.get('/hotel')\<close>: the bookings against the caller's hotel, at most 100.\<close>

definition get_hotel_bookings :: "auth_user \<Rightarrow> string option \<Rightarrow> database \<Rightarrow> response" where
  "get_hotel_bookings user status db =
     (if user_identityType user \<noteq> Some Hotel
      then Response 403 (Error ''Access denied. Hotel users only.'')
      else case present_num (getHotelDetailsId db (user_id user)) of
        None \<Rightarrow> Response 404 (Error ''Hotel profile not found'')
      | Some hotelId \<Rightarrow>
          Response 200 (HotelBookings (take 100 (sort_key (\<lambda>r. - int (bk_CreatedAt (fst r)))
            [(b, c, n).
               b \<leftarrow> bookings db, c \<leftarrow> left_join_corporate db b, n \<leftarrow> left_join_room_type db b,
               bk_HotelDetails_Id b = hotelId, status_filter status b]))))"

text \<open>\<open>router.get('/:id')\<close>: one booking, looked up by id and by the caller's account id.\<close>

definition get_booking :: "auth_user \<Rightarrow> int \<Rightarrow> database \<Rightarrow> response" where
  "get_booking user bookingId db =
     (case [(b, hd_HotelName h, hd_City h, hd_Address h, n).
              b \<leftarrow> bookings db, h \<leftarrow> HotelDetails db, bk_HotelDetails_Id b = hd_Id h,
              n \<leftarrow> left_join_room_type db b,
              bk_Id b = bookingId, bk_UserId b = user_id user] of
        [] \<Rightarrow> Response 404 (Error ''Booking not found'')
      | r # _ \<Rightarrow> Response 200 (BookingDetails r))"

text \<open>
  \<open>SELECT Id, BookingStatus FROM bookings WHERE Id = ? AND HotelDetails_Id = ?\<close> of
  approve and reject (a NULL hotel id matches no row), and
  \<open>... WHERE Id = ? AND UserId = ?\<close> of cancel.
\<close>

definition select_hotel_booking :: "database \<Rightarrow> int \<Rightarrow> int option \<Rightarrow> booking list" where
  "select_hotel_booking db bookingId hotelId =
     filter (\<lambda>b. bk_Id b = bookingId \<and> Some (bk_HotelDetails_Id b) = hotelId) (bookings db)"

definition select_own_booking :: "database \<Rightarrow> int \<Rightarrow> int \<Rightarrow> booking list" where
  "select_own_booking db bookingId userId =
     filter (\<lambda>b. bk_Id b = bookingId \<and> bk_UserId b = userId) (bookings db)"

text \<open>\<open>UPDATE bookings SET ... WHERE Id = ?\<close>; \<open>UpdatedAt\<close> follows the update.\<close>

definition update_booking :: "int \<Rightarrow> nat \<Rightarrow> (booking \<Rightarrow> booking) \<Rightarrow> database \<Rightarrow> database" where
  "update_booking bookingId now f db =
     db\<lparr>bookings := map (\<lambda>b. if bk_Id b = bookingId then (f b)\<lparr>bk_UpdatedAt := now\<rparr> else b)
                         (bookings db)\<rparr>"

text \<open>\<open>router.put('/:id/approve')\<close>\<close>

definition approve_booking :: "nat \<Rightarrow> auth_user \<Rightarrow> int \<Rightarrow> database \<Rightarrow> response \<times> database" where
  "approve_booking now user bookingId db =
     (if user_identityType user \<noteq> Some Hotel
      then (Response 403 (Error ''Access denied. Hotel users only.''), db)
      else let hotelId = getHotelDetailsId db (user_id user)
        in case select_hotel_booking db bookingId hotelId of
             [] \<Rightarrow> (Response 404 (Error ''Booking not found''), db)
           | b # _ \<Rightarrow>
               if bk_BookingStatus b \<noteq> Pending
               then (Response 400 (Error ''Only pending bookings can be approved''), db)
               else (Response 200 (Message ''Booking approved successfully''),
                     update_booking bookingId now
                       (\<lambda>x. x\<lparr>bk_BookingStatus := Confirmed, bk_ApprovedAt := Some now\<rparr>) db))"

text \<open>\<open>router.put('/:id/reject')\<close>\<close>

definition reject_booking ::
  "nat \<Rightarrow> auth_user \<Rightarrow> int \<Rightarrow> string option \<Rightarrow> database \<Rightarrow> response \<times> database" where
  "reject_booking now user bookingId reason db =
     (if user_identityType user \<noteq> Some Hotel
      then (Response 403 (Error ''Access denied. Hotel users only.''), db)
      else let hotelId = getHotelDetailsId db (user_id user)
        in case select_hotel_booking db bookingId hotelId of
             [] \<Rightarrow> (Response 404 (Error ''Booking not found''), db)
           | b # _ \<Rightarrow>
               if bk_BookingStatus b \<noteq> Pending
               then (Response 400 (Error ''Only pending bookings can be rejected''), db)
               else (Response 200 (Message ''Booking rejected''),
                     update_booking bookingId now
                       (\<lambda>x. x\<lparr>bk_BookingStatus := Rejected, bk_RejectionReason := present_str reason\<rparr>)
                       db))"

text \<open>\<open>router.put('/:id/cancel')\<close>\<close>

definition cancel_booking :: "nat \<Rightarrow> auth_user \<Rightarrow> int \<Rightarrow> database \<Rightarrow> response \<times> database" where
  "cancel_booking now user bookingId db =
     (case select_own_booking db bookingId (user_id user) of
        [] \<Rightarrow> (Response 404 (Error ''Booking not found''), db)
      | b # _ \<Rightarrow>
          if bk_BookingStatus b \<notin> {Pending, Confirmed}
          then (Response 400 (Error ''This booking cannot be cancelled''), db)
          else (Response 200 (Message ''Booking cancelled successfully''),
                update_booking bookingId now (\<lambda>x. x\<lparr>bk_BookingStatus := Cancelled\<rparr>) db))"

text \<open>A run of workflow calls, each by some caller at some time, and the database after it.\<close>

datatype workflow_call =
    Approve nat auth_user int
  | Reject nat auth_user int "string option"
  | Cancel nat auth_user int

fun workflow_step :: "workflow_call \<Rightarrow> database \<Rightarrow> database" where
  "workflow_step (Approve now user bookingId) db = snd (approve_booking now user bookingId db)"
| "workflow_step (Reject now user bookingId reason) db =
     snd (reject_booking now user bookingId reason db)"
| "workflow_step (Cancel now user bookingId) db = snd (cancel_booking now user bookingId db)"

fun workflow_run :: "workflow_call list \<Rightarrow> database \<Rightarrow> database" where
  "workflow_run [] db = db"
| "workflow_run (c # cs) db = workflow_run cs (workflow_step c db)"

section \<open>routes/auth.ts: login\<close>

text \<open>
  The libraries the login handler calls are parameters of the model: the validator's
  \<open>isEmail\<close> and \<open>normalizeEmail\<close>, bcrypt's comparison of a password with a hash,
  \<open>jwt.sign\<close> and the configured \<open>JWT_SECRET\<close>.
\<close>

record auth_env =
  isEmail :: "string \<Rightarrow> bool"
  normalizeEmail :: "string \<Rightarrow> string"
  bcrypt_compare :: "string \<Rightarrow> string \<Rightarrow> bool"
  jwt_sign :: "auth_user \<Rightarrow> string \<Rightarrow> string"
  JWT_SECRET :: "string option"

text \<open>The password of the JSON body is a text or a number.\<close>

datatype json_value = JString string | JNumber rat

record login_request =
  email :: string
  password :: json_value

text \<open>
  \<open>loginValidation\<close>: the messages of the rules the request breaks. The validator tests
  the length of the value's text; the text of a number is never empty.
\<close>

definition loginValidation :: "auth_env \<Rightarrow> login_request \<Rightarrow> string list" where
  "loginValidation env req =
     (if isEmail env (email req) then [] else [''Valid email required''])
     @ (if (case password req of JString s \<Rightarrow> 1 \<le> length s | JNumber n \<Rightarrow> True) then []
        else [''Password required''])"

text \<open>
  \<open>bcrypt.compare(password, user.password)\<close>: the promise rejects (\<open>None\<close>) unless both
  arguments are texts; the \<open>password\<close> column is NULL for an account without a local
  password, as the Google callback creates it.
\<close>

definition compare_password :: "auth_env \<Rightarrow> json_value \<Rightarrow> string option \<Rightarrow> bool option" where
  "compare_password env pw hash =
     (case pw of
        JNumber n \<Rightarrow> None
      | JString s \<Rightarrow> (case hash of None \<Rightarrow> None | Some h \<Rightarrow> Some (bcrypt_compare env s h)))"

text \<open>\<open>generateToken\<close> of utils/helpers.ts; it throws when the secret is not set.\<close>

definition generateToken :: "auth_env \<Rightarrow> auth_user \<Rightarrow> string option" where
  "generateToken env user =
     (case present_str (JWT_SECRET env) of
        None \<Rightarrow> None
      | Some jwtSecret \<Rightarrow> Some (jwt_sign env user jwtSecret))"

text \<open>\<open>router.post('/login')\<close>; every exception ends in the handler's \<open>catch\<close>.\<close>

definition login :: "auth_env \<Rightarrow> login_request \<Rightarrow> database \<Rightarrow> response" where
  "login env req db =
     (if loginValidation env req \<noteq> [] then Response 400 (Errors (loginValidation env req))
      else case filter (\<lambda>u. u_email u = normalizeEmail env (email req) \<and> u_isActive u)
                  (users db) of
        [] \<Rightarrow> Response 401 (Error ''Invalid credentials'')
      | user # _ \<Rightarrow>
          (case compare_password env (password req) (u_password user) of
             None \<Rightarrow> Response 500 (Error ''Login failed'')
           | Some passwordMatch \<Rightarrow>
               if \<not> passwordMatch then Response 401 (Error ''Invalid credentials'')
               else case generateToken env
                           \<lparr>user_id = u_id user, user_email = u_email user,
                            user_role = u_role user,
                            user_identityType = u_identityType user\<rparr> of
                      None \<Rightarrow> Response 500 (Error ''Login failed'')
                    | Some token \<Rightarrow>
                        Response 200 (LoggedIn token (u_id user) (u_email user) (u_role user)
                          (u_corporateClientId user) (u_identityType user)
                          (u_isProfileCompleted user))))"

section \<open>routes/posts.ts\<close>

text \<open>Body of \<open>PUT /posts/:id\<close>.\<close>

record post_payload =
  post_title :: "string option"
  post_description :: "string option"
  post_price :: "rat option"
  post_availableDate :: "string option"
  post_minPrice :: "rat option"
  post_maxPrice :: "rat option"
  post_startDate :: "string option"
  post_endDate :: "string option"

text \<open>
  \<open>router.put('/:id')\<close> behind \<open>hotelOnlyMiddleware\<close>. The UPDATE assigns every column
  from the payload. An absent title is bound as \<open>undefined\<close>, which \<open>execute\<close> refuses
  (and \<open>Title\<close> is NOT NULL): the handler's \<open>catch\<close> answers 500.
\<close>

definition update_post ::
  "auth_user \<Rightarrow> int \<Rightarrow> post_payload \<Rightarrow> database \<Rightarrow> response \<times> database" where
  "update_post user postId p db =
     (if user_identityType user \<noteq> Some Hotel
      then (Response 403 (Error ''Access denied. Hotel users only.''), db)
      else case filter (\<lambda>h. hd_userId h = user_id user) (HotelDetails db) of
        [] \<Rightarrow> (Response 404 (Error ''Hotel profile not found''), db)
      | hotelDetails # _ \<Rightarrow>
          (case filter (\<lambda>x. hp_Id x = postId \<and> hp_HotelDetails_Id x = hd_Id hotelDetails)
                  (HotelPosts db) of
             [] \<Rightarrow> (Response 404 (Error ''Post not found or unauthorized''), db)
           | existingPost # _ \<Rightarrow>
               (case post_title p of
                  None \<Rightarrow> (Response 500 (Error ''Failed to update post''), db)
                | Some title \<Rightarrow>
                    (Response 200 (Message ''Post updated successfully''),
                     db\<lparr>HotelPosts :=
                       map (\<lambda>x. if hp_Id x = postId
                             then x\<lparr>hp_Title := title,
                                    hp_Description :=
                                      Some (case present_str (post_description p) of
                                              None \<Rightarrow> [] | Some d \<Rightarrow> d),
                                    hp_Price := present_num (post_price p),
                                    hp_MinPrice := present_num (post_minPrice p),
                                    hp_MaxPrice := present_num (post_maxPrice p),
                                    hp_AvailableDate := present_str (post_availableDate p),
                                    hp_StartDate := present_str (post_startDate p),
                                    hp_EndDate := present_str (post_endDate p)\<rparr>
                             else x)
                         (HotelPosts db)\<rparr>))))"

text \<open>\<open>router.delete('/:id')\<close>: 404 when the DELETE affects no row.\<close>

definition delete_post :: "auth_user \<Rightarrow> int \<Rightarrow> database \<Rightarrow> response \<times> database" where
  "delete_post user postId db =
     (if user_identityType user \<noteq> Some Hotel
      then (Response 403 (Error ''Access denied. Hotel users only.''), db)
      else case filter (\<lambda>h. hd_userId h = user_id user) (HotelDetails db) of
        [] \<Rightarrow> (Response 404 (Error ''Hotel profile not found''), db)
      | hotelDetails # _ \<Rightarrow>
          (if filter (\<lambda>x. hp_Id x = postId \<and> hp_HotelDetails_Id x = hd_Id hotelDetails)
                (HotelPosts db) = []
           then (Response 404 (Error ''Post not found or unauthorized''), db)
           else (Response 200 (Message ''Post deleted successfully''),
                 db\<lparr>HotelPosts :=
                   filter (\<lambda>x. \<not> (hp_Id x = postId \<and> hp_HotelDetails_Id x = hd_Id hotelDetails))
                     (HotelPosts db)\<rparr>)))"

section \<open>routes/roomTypes.ts\<close>

text \<open>Body of \<open>PUT /room-types/:id\<close>.\<close>

record room_type_payload =
  rtp_name :: "string option"
  rtp_description :: "string option"
  rtp_capacity :: "int option"
  rtp_basePrice :: "rat option"
  rtp_corporatePrice :: "rat option"
  rtp_amenities :: "string list option"
  rtp_isActive :: "bool option"

text \<open>\<open>COALESCE(?, column)\<close>: the bound value unless it is NULL.\<close>

definition COALESCE :: "'a option \<Rightarrow> 'a \<Rightarrow> 'a" where
  "COALESCE v stored = (case v of None \<Rightarrow> stored | Some x \<Rightarrow> x)"

text \<open>\<open>router.put('/:id')\<close> behind \<open>hotelOnlyMiddleware\<close>.\<close>

definition update_room_type ::
  "auth_user \<Rightarrow> int \<Rightarrow> room_type_payload \<Rightarrow> database \<Rightarrow> response \<times> database" where
  "update_room_type user rtId p db =
     (if user_identityType user \<noteq> Some Hotel
      then (Response 403 (Error ''Access denied. Hotel users only.''), db)
      else case present_num (getHotelDetailsId db (user_id user)) of
        None \<Rightarrow> (Response 404 (Error ''Hotel profile not found''), db)
      | Some hotelId \<Rightarrow>
          (case filter (\<lambda>x. rt_Id x = rtId \<and> rt_HotelDetails_Id x = hotelId) (room_types db) of
             [] \<Rightarrow> (Response 404 (Error ''Room type not found or unauthorized''), db)
           | existing # _ \<Rightarrow>
               (Response 200 (Message ''Room type updated successfully''),
                db\<lparr>room_types :=
                  map (\<lambda>x. if rt_Id x = rtId
                        then x\<lparr>rt_Name := COALESCE (present_str (rtp_name p)) (rt_Name x),
                               rt_Description :=
                                 (case present_str (rtp_description p) of
                                    None \<Rightarrow> rt_Description x | Some d \<Rightarrow> Some d),
                               rt_Capacity := COALESCE (present_num (rtp_capacity p)) (rt_Capacity x),
                               rt_BasePrice :=
                                 COALESCE (present_num (rtp_basePrice p)) (rt_BasePrice x),
                               rt_CorporatePrice :=
                                 (case present_num (rtp_corporatePrice p) of
                                    None \<Rightarrow> rt_CorporatePrice x | Some c \<Rightarrow> Some c),
                               rt_Amenities :=
                                 (case rtp_amenities p of
                                    None \<Rightarrow> rt_Amenities x | Some a \<Rightarrow> Some a),
                               rt_IsActive := COALESCE (rtp_isActive p) (rt_IsActive x)\<rparr>
                        else x)
                    (room_types db)\<rparr>)))"

text \<open>
  \<open>router.delete('/:id')\<close>. A room type that bookings refer to cannot be deleted
  (\<open>fk_bk_roomtype\<close>, ON DELETE RESTRICT): the DELETE throws.
\<close>

definition delete_room_type :: "auth_user \<Rightarrow> int \<Rightarrow> database \<Rightarrow> response \<times> database" where
  "delete_room_type user rtId db =
     (if user_identityType user \<noteq> Some Hotel
      then (Response 403 (Error ''Access denied. Hotel users only.''), db)
      else case present_num (getHotelDetailsId db (user_id user)) of
        None \<Rightarrow> (Response 404 (Error ''Hotel profile not found''), db)
      | Some hotelId \<Rightarrow>
          (if filter (\<lambda>x. rt_Id x = rtId \<and> rt_HotelDetails_Id x = hotelId) (room_types db) = []
           then (Response 404 (Error ''Room type not found or unauthorized''), db)
           else if rtId \<in> set (map bk_RoomTypes_Id (bookings db))
           then (Response 500 (Error ''Failed to delete room type''), db)
           else (Response 200 (Message ''Room type deleted successfully''),
                 db\<lparr>room_types :=
                   filter (\<lambda>x. \<not> (rt_Id x = rtId \<and> rt_HotelDetails_Id x = hotelId))
                     (room_types db)\<rparr>)))"

section \<open>routes/browseHotels.ts: search\<close>

text \<open>
  The query string of \<open>GET /browse/hotels\<close>. A numeric parameter is given by the number
  that \<open>Number()\<close> reads from it; \<open>None\<close> stands for a parameter that is absent or empty
  and, for the parameters the handler guards (prices, guests, page, limit), for text that
  is no finite number.
\<close>

record search_query =
  q_city :: "string option"
  q_state :: "string option"
  q_country :: "string option"
  q_pincode :: "string option"
  q_minPrice :: "rat option"
  q_maxPrice :: "rat option"
  q_minStars :: "rat option"
  q_maxStars :: "rat option"
  q_guests :: "rat option"
  q_sortBy :: "string option"
  q_page :: "rat option"
  q_limit :: "rat option"

definition active_room_types :: "database \<Rightarrow> int \<Rightarrow> room_type list" where
  "active_room_types db hotelId =
     filter (\<lambda>rt. rt_HotelDetails_Id rt = hotelId \<and> rt_IsActive rt) (room_types db)"

text \<open>SQL's MIN and MAX: NULL over no rows.\<close>

definition sql_min :: "'a::linorder list \<Rightarrow> 'a option" where
  "sql_min xs = (case xs of [] \<Rightarrow> None | x # ys \<Rightarrow> Some (fold min ys x))"

definition sql_max :: "'a::linorder list \<Rightarrow> 'a option" where
  "sql_max xs = (case xs of [] \<Rightarrow> None | x # ys \<Rightarrow> Some (fold max ys x))"

text \<open>The SELECT list: the columns of the hotel and the six subqueries over its room types.\<close>

definition hotel_row :: "database \<Rightarrow> hotel_details \<Rightarrow> hotel_summary" where
  "hotel_row db h =
     (let rts = active_room_types db (hd_Id h)
      in \<lparr>hs_hotel = h,
          hs_roomTypeCount = length rts,
          hs_minPrice = sql_min (map rt_BasePrice rts),
          hs_maxPrice = sql_max (map rt_BasePrice rts),
          hs_minCorpPrice = sql_min (List.map_filter rt_CorporatePrice rts),
          hs_maxCapacity = sql_max (map rt_Capacity rts),
          hs_roomTypeNames = remdups (map rt_Name rts)\<rparr>)"

text \<open>
  \<open>column LIKE '%text%'\<close>, when the parameter is given; \<open>like\<close> is the database's
  substring match under its collation. A NULL column matches nothing.
\<close>

definition like_filter :: "(string \<Rightarrow> string \<Rightarrow> bool) \<Rightarrow> string option \<Rightarrow> string option \<Rightarrow> bool" where
  "like_filter like param column =
     (case present_str param of
        None \<Rightarrow> True
      | Some text \<Rightarrow> (case column of None \<Rightarrow> False | Some c \<Rightarrow> like c text))"

text \<open>The WHERE clause after the join: location and star filters.\<close>

definition where_clause :: "(string \<Rightarrow> string \<Rightarrow> bool) \<Rightarrow> search_query \<Rightarrow> hotel_details \<Rightarrow> bool" where
  "where_clause like q h =
     (like_filter like (q_city q) (Some (hd_City h))
      \<and> like_filter like (q_state q) (hd_State h)
      \<and> like_filter like (q_country q) (hd_Country h)
      \<and> like_filter like (q_pincode q) (hd_Pincode h)
      \<and> (case q_minStars q of
            None \<Rightarrow> True
          | Some minStars \<Rightarrow>
              (case hd_StarCategory h of None \<Rightarrow> False | Some s \<Rightarrow> minStars \<le> of_int s))
      \<and> (case q_maxStars q of
            None \<Rightarrow> True
          | Some maxStars \<Rightarrow>
              (case hd_StarCategory h of None \<Rightarrow> False | Some s \<Rightarrow> of_int s \<le> maxStars)))"

text \<open>\<open>havingParts\<close>: at least one active room type, then the price and capacity tests.\<close>

definition having_clause :: "search_query \<Rightarrow> hotel_summary \<Rightarrow> bool" where
  "having_clause q r =
     (0 < hs_roomTypeCount r
      \<and> (case q_minPrice q of
            None \<Rightarrow> True
          | Some minPriceNum \<Rightarrow>
              if 0 \<le> minPriceNum
              then (case hs_minPrice r of None \<Rightarrow> False | Some m \<Rightarrow> minPriceNum \<le> m)
              else True)
      \<and> (case q_maxPrice q of
            None \<Rightarrow> True
          | Some maxPriceNum \<Rightarrow>
              if 0 \<le> maxPriceNum
              then (case hs_minPrice r of None \<Rightarrow> False | Some m \<Rightarrow> m \<le> maxPriceNum)
              else True)
      \<and> (case q_guests q of
            None \<Rightarrow> True
          | Some guests \<Rightarrow>
              (let guestsNum = \<lfloor>guests\<rfloor>
               in if 0 < guestsNum
                  then (case hs_maxCapacity r of None \<Rightarrow> False | Some c \<Rightarrow> guestsNum \<le> c)
                  else True)))"

text \<open>
  The rows both queries range over: \<open>HotelDetails\<close> joined with the owner's account,
  profile completed, WHERE and HAVING applied. The count query repeats the same clauses.
\<close>

definition filtered_hotels :: "(string \<Rightarrow> string \<Rightarrow> bool) \<Rightarrow> search_query \<Rightarrow> database \<Rightarrow> hotel_summary list" where
  "filtered_hotels like q db =
     filter (having_clause q)
       [hotel_row db h.
          h \<leftarrow> HotelDetails db, u \<leftarrow> users db,
          hd_userId h = u_id u, u_isProfileCompleted u, where_clause like q h]"

text \<open>ORDER BY keys; NULL sorts first ascending and last descending.\<close>

definition asc_key :: "'a::{linorder,zero} option \<Rightarrow> nat \<times> 'a" where
  "asc_key v = (case v of None \<Rightarrow> (0, 0) | Some x \<Rightarrow> (1, x))"

definition desc_key :: "'a::{linorder,zero,uminus} option \<Rightarrow> nat \<times> 'a" where
  "desc_key v = (case v of None \<Rightarrow> (1, 0) | Some x \<Rightarrow> (0, - x))"

text \<open>\<open>sortOptions[sortBy] || sortOptions['rating']\<close>, with \<open>sortBy = 'rating'\<close> by default.\<close>

definition order_by :: "string option \<Rightarrow> hotel_summary list \<Rightarrow> hotel_summary list" where
  "order_by sortBy rows =
     (if sortBy = Some ''price-low''
      then sort_key (\<lambda>r. (asc_key (hs_minPrice r), desc_key (hd_StarCategory (hs_hotel r)))) rows
      else if sortBy = Some ''price-high''
      then sort_key (\<lambda>r. (desc_key (hs_minPrice r), desc_key (hd_StarCategory (hs_hotel r)))) rows
      else if sortBy = Some ''name''
      then sort_key (\<lambda>r. hd_HotelName (hs_hotel r)) rows
      else sort_key (\<lambda>r. (desc_key (hd_StarCategory (hs_hotel r)), hd_HotelName (hs_hotel r))) rows)"

text \<open>
  \<open>router.get('/')\<close>: the page of hotels and the pagination block. The \<open>cities\<close> list and
  the echo of the filters are left out of the modelled body.
\<close>

definition search_hotels :: "(string \<Rightarrow> string \<Rightarrow> bool) \<Rightarrow> search_query \<Rightarrow> database \<Rightarrow> response" where
  "search_hotels like q db =
     (let pageNum = max 1 (or_num (q_page q) 1);
          limitNum = max 1 (min 50 (or_num (q_limit q) 12));
          offset = (pageNum - 1) * limitNum;
          safeLimitNum = max 1 (min 50 \<lfloor>limitNum\<rfloor>);
          safeOffset = max 0 \<lfloor>offset\<rfloor>;
          hotels = take (nat safeLimitNum)
                     (drop (nat safeOffset) (order_by (q_sortBy q) (filtered_hotels like q db)));
          total = length (filtered_hotels like q db)
      in Response 200
           (HotelPage hotels total pageNum limitNum \<lceil>rat_of_nat total / limitNum\<rceil>))"

section \<open>Example data\<close>

text \<open>
  The total as the specification words it:
  \<open>(corporatePrice ?? basePrice) \<times> nights \<times> roomCount\<close>, with
  \<open>nights = ceil((checkOut - checkIn) in days)\<close>.
\<close>

definition claimed_total_price :: "rat \<Rightarrow> rat option \<Rightarrow> int \<Rightarrow> int \<Rightarrow> int \<Rightarrow> rat" where
  "claimed_total_price basePrice corporatePrice checkIn checkOut rooms =
     (case corporatePrice of None \<Rightarrow> basePrice | Some c \<Rightarrow> c)
       * of_int \<lceil>(of_int (checkOut - checkIn) :: rat) / 86400000\<rceil> * of_int rooms"

text \<open>
  Two hotel accounts (3 and 4) with a hotel each (1 and 2), a corporate account (7), and one
  active room type (base price 150) of hotel 1.
\<close>

definition example_account :: "int \<Rightarrow> string \<Rightarrow> identity_type \<Rightarrow> bool \<Rightarrow> user_row" where
  "example_account uid mail identity completed =
     \<lparr>u_id = uid, u_email = mail, u_password = Some ''$2a$12$hash'',
      u_role = ''user'', u_corporateClientId = None, u_identityType = Some identity,
      u_isProfileCompleted = completed, u_isActive = True\<rparr>"

definition example_hotel :: "int \<Rightarrow> int \<Rightarrow> hotel_details" where
  "example_hotel hotelId owner =
     \<lparr>hd_Id = hotelId, hd_userId = owner, hd_HotelName = ''Grand'', hd_City = ''Pune'',
      hd_State = None, hd_Country = None, hd_Pincode = None, hd_Address = None,
      hd_StarCategory = Some 4\<rparr>"

definition example_room_type :: "rat option \<Rightarrow> room_type" where
  "example_room_type corporatePrice =
     \<lparr>rt_Id = 1, rt_HotelDetails_Id = 1, rt_Name = ''Deluxe'', rt_Description = None,
      rt_Capacity = 2, rt_BasePrice = 150, rt_CorporatePrice = corporatePrice,
      rt_Amenities = None, rt_IsActive = True\<rparr>"

definition example_catalog :: "rat option \<Rightarrow> database" where
  "example_catalog corporatePrice =
     \<lparr>users = [example_account 3 ''desk@grand.test'' Hotel True,
               example_account 4 ''desk@plaza.test'' Hotel True,
               example_account 7 ''ada@acme.test'' Corporate True],
      HotelDetails = [example_hotel 1 3, example_hotel 2 4], CorporateDetails = [],
      HotelPosts = [], room_types = [example_room_type corporatePrice], bookings = []\<rparr>"

text \<open>
  The same database holding booking 1, made by account 7 against hotel 1 under the number
  \<open>BK1234560042\<close>, in a given status.
\<close>

definition example_booking :: "booking_status \<Rightarrow> booking" where
  "example_booking status =
     \<lparr>bk_Id = 1, bk_BookingNumber = ''BK1234560042'', bk_UserId = 7,
      bk_CorporateDetails_Id = None, bk_HotelDetails_Id = 1, bk_RoomTypes_Id = 1,
      bk_CheckInDate = 1766188800000, bk_CheckOutDate = 1766361600000, bk_RoomQuantity = 1,
      bk_GuestCount = 1, bk_GuestName = ''Ada'', bk_GuestEmail = ''ada@acme.test'',
      bk_GuestPhone = None, bk_SpecialRequests = None, bk_TotalPrice = 240, bk_Discount = 0,
      bk_FinalPrice = None, bk_PaymentStatus = Pay_pending, bk_BookingStatus = status,
      bk_ApprovedAt = None, bk_RejectionReason = None, bk_CreatedAt = 1765000000000,
      bk_UpdatedAt = 1765000000000\<rparr>"

definition example_booked :: "booking_status \<Rightarrow> database" where
  "example_booked status = (example_catalog (Some 120))\<lparr>bookings := [example_booking status]\<rparr>"

text \<open>A request for the nights of 2025-12-20 and 2025-12-21, and the callers.\<close>

definition example_request :: "int option \<Rightarrow> booking_request" where
  "example_request rooms =
     \<lparr>hotelDetailsId = Some 1, roomTypeId = Some 1, checkInDate = Some 1766188800000,
      checkOutDate = Some 1766361600000, guestName = Some ''Ada'',
      guestEmail = Some ''ada@acme.test'', guestPhone = None, guestCount = None,
      roomCount = rooms, specialRequests = None\<rparr>"

definition corporate_caller :: auth_user where
  "corporate_caller =
     \<lparr>user_id = 7, user_email = ''ada@acme.test'', user_role = ''user'',
      user_identityType = Some Corporate\<rparr>"

text \<open>
  Stand-ins for the libraries of the login handler: the stored hash matches only the
  password \<open>correct horse\<close>. Account 8 was created by the Google callback and has no
  local password.
\<close>

definition example_env :: auth_env where
  "example_env =
     \<lparr>isEmail = (\<lambda>s. CHR ''@'' \<in> set s),
      normalizeEmail = (\<lambda>s. s),
      bcrypt_compare = (\<lambda>pw hash. pw = ''correct horse''),
      jwt_sign = (\<lambda>user secret. ''signed''),
      JWT_SECRET = Some ''secret''\<rparr>"

definition example_accounts :: database where
  "example_accounts =
     (example_catalog None)
       \<lparr>users :=
          [example_account 7 ''ada@acme.test'' Corporate True,
           (example_account 8 ''gina@acme.test'' Corporate True)\<lparr>u_password := None\<rparr>]\<rparr>"

text \<open>Post 1 of hotel 1 and a payload that carries a new title and nothing else.\<close>

definition example_post :: hotel_post where
  "example_post =
     \<lparr>hp_Id = 1, hp_HotelDetails_Id = 1, hp_Title = ''Winter offer'',
      hp_Description = Some ''Sea view, breakfast included'', hp_Price = Some 100,
      hp_MinPrice = Some 80, hp_MaxPrice = Some 120, hp_AvailableDate = Some ''2025-12-20'',
      hp_StartDate = Some ''2025-12-01'', hp_EndDate = Some ''2026-01-31'',
      hp_CreatedAt = 1765000000000\<rparr>"

definition example_posted :: database where
  "example_posted = (example_catalog (Some 120))\<lparr>HotelPosts := [example_post]\<rparr>"

definition title_only :: post_payload where
  "title_only =
     \<lparr>post_title = Some ''Spring offer'', post_description = None, post_price = None,
      post_availableDate = None, post_minPrice = None, post_maxPrice = None,
      post_startDate = None, post_endDate = None\<rparr>"

definition name_only :: room_type_payload where
  "name_only =
     \<lparr>rtp_name = Some ''Deluxe King'', rtp_description = None, rtp_capacity = None,
      rtp_basePrice = None, rtp_corporatePrice = None, rtp_amenities = None,
      rtp_isActive = None\<rparr>"

definition hotel_caller :: "int \<Rightarrow> auth_user" where
  "hotel_caller uid =
     \<lparr>user_id = uid, user_email = ''desk@grand.test'', user_role = ''user'',
      user_identityType = Some Hotel\<rparr>"

text \<open>
  A listing for the search: hotels 1 and 2 with completed owners and one active room type
  each (capacity 2 and 4), hotel 3 whose owner has not completed the profile, and hotel 4
  whose only room type is inactive; a query for Pune with at least four stars; and a
  stand-in for the database's LIKE.
\<close>

definition example_listing :: database where
  "example_listing =
     \<lparr>users = [example_account 3 ''desk@grand.test'' Hotel True,
               example_account 4 ''desk@plaza.test'' Hotel True,
               example_account 5 ''desk@hidden.test'' Hotel False,
               example_account 6 ''desk@empty.test'' Hotel True],
      HotelDetails = [example_hotel 1 3, example_hotel 2 4, example_hotel 3 5, example_hotel 4 6],
      CorporateDetails = [], HotelPosts = [],
      room_types =
        [example_room_type (Some 120),
         (example_room_type None)\<lparr>rt_Id := 2, rt_HotelDetails_Id := 2, rt_Capacity := 4\<rparr>,
         (example_room_type None)\<lparr>rt_Id := 3, rt_HotelDetails_Id := 3, rt_Capacity := 4\<rparr>,
         (example_room_type None)\<lparr>rt_Id := 4, rt_HotelDetails_Id := 4, rt_IsActive := False\<rparr>],
      bookings = []\<rparr>"

definition example_query :: "rat option \<Rightarrow> search_query" where
  "example_query guests =
     \<lparr>q_city = Some ''Pune'', q_state = None, q_country = None, q_pincode = None,
      q_minPrice = None, q_maxPrice = None, q_minStars = Some 4, q_maxStars = None,
      q_guests = guests, q_sortBy = None, q_page = None, q_limit = None\<rparr>"

definition example_like :: "string \<Rightarrow> string \<Rightarrow> bool" where
  "example_like column text = (text = column)"

section \<open>Properties of booking creation\<close>

lemma or_num_cases:
  "or_num v d = (case v of None \<Rightarrow> d | Some n \<Rightarrow> if n = 0 then d else n)"
  by (simp add: or_num_def present_num_def split: option.split)

lemma filter_ConsD: "filter P xs = y # ys \<Longrightarrow> y \<in> set xs \<and> P y"
proof -
  assume "filter P xs = y # ys"
  then have "y \<in> set (filter P xs)"
    by simp
  then show ?thesis
    by simp
qed

lemma getCorporateDetailsId_stored:
  "getCorporateDetailsId db uid = Some c \<Longrightarrow> c \<in> cd_Id ` set (CorporateDetails db)"
  by (auto simp add: getCorporateDetailsId_def split: list.splits dest: filter_ConsD)

subsection \<open>Values of a DECIMAL column\<close>

lemma round_half_away_of_int: "round_half_away (of_int k) = k"
proof (cases "0 \<le> k")
  case True
  then have "\<lfloor>(of_int k :: rat) + 1 / 2\<rfloor> = k"
    by (simp add: floor_unique)
  with True show ?thesis
    by (simp add: round_half_away_def)
next
  case False
  then have "\<lfloor>- (of_int k :: rat) + 1 / 2\<rfloor> = - k"
    by (intro floor_unique) simp_all
  with False show ?thesis
    by (simp add: round_half_away_def)
qed

lemma as_DECIMAL_hundredths:
  "\<bar>k\<bar> < 10 ^ digits \<Longrightarrow> as_DECIMAL digits 2 (of_int k / 100) = Some (of_int k / 100)"
  using round_half_away_of_int [of k] by (simp add: as_DECIMAL_def)



subsection \<open>The INSERT\<close>

lemma column_values_SomeD:
  assumes "column_values r = Some b"
  obtains t where "as_DECIMAL 12 2 (bk_TotalPrice r) = Some t" and "b = r\<lparr>bk_TotalPrice := t\<rparr>"
  using assms by (auto simp add: column_values_def split: option.splits if_splits)


text \<open>
  A row that fits its columns, carries a new number and refers to stored rows is stored,
  under the next id and with its total at the scale of the column.
\<close>

lemma insert_booking_fresh:
  assumes "column_values (row (next_id (map bk_Id (bookings db)))) = Some b"
    and "bk_BookingNumber b \<notin> bk_BookingNumber ` set (bookings db)"
    and "foreign_keys_hold b db"
  shows "insert_booking row db =
     Some (next_id (map bk_Id (bookings db)), db\<lparr>bookings := bookings db @ [b]\<rparr>)"
  using assms by (simp add: insert_booking_def Let_def)

lemma insert_booking_collision:
  assumes "bk_BookingNumber (row (next_id (map bk_Id (bookings db))))
             \<in> bk_BookingNumber ` set (bookings db)"
  shows "insert_booking row db = None"
proof (cases "column_values (row (next_id (map bk_Id (bookings db))))")
  case None
  then show ?thesis
    by (simp add: insert_booking_def Let_def)
next
  case (Some b)
  then have "bk_BookingNumber b = bk_BookingNumber (row (next_id (map bk_Id (bookings db))))"
    by (auto elim: column_values_SomeD)
  with Some assms show ?thesis
    by (simp add: insert_booking_def Let_def)
qed

subsection \<open>The price per night and the example\<close>



lemma example_number: "generateBookingNumber 1766000123456 42 = ''BK1234560042''"
proof -
  have pad: "replicate 2 (CHR ''0'') = ''00''"
    by (simp add: numeral_2_eq_2)
  show ?thesis
    by (simp add: generateBookingNumber_def slice_last_def padStart_def digit_def pad)
qed

lemma example_nights: "nights_between 1766188800000 1766361600000 = 2"
  by (simp add: nights_between_def)

lemma example_prices:
  "as_DECIMAL 10 2 150 = Some 150" "as_DECIMAL 10 2 120 = Some 120"
  "as_DECIMAL 12 2 240 = Some 240" "as_DECIMAL 12 2 0 = Some 0"
  using as_DECIMAL_hundredths [of 15000 10] as_DECIMAL_hundredths [of 12000 10]
    as_DECIMAL_hundredths [of 24000 12] as_DECIMAL_hundredths [of 0 12]
  by simp_all





text \<open>
  A corporate price of 0 is charged as 0, as the claim has it: the driver returns the text
  \<open>0.00\<close>, which \<open>||\<close> does not replace by the base price.
\<close>

lemma example_zero_corporate_price:
  "bk_TotalPrice (last (bookings (snd (create_booking False 1766000123456 42 corporate_caller
       (example_request (Some 1)) (example_catalog (Some 0)))))) = 0
   \<and> claimed_total_price 150 (Some 0) 1766188800000 1766361600000 1 = 0"
  by (simp add: create_booking_def corporate_caller_def example_request_def example_catalog_def
      example_room_type_def example_account_def example_hotel_def required_fields_def
      present_num_def present_str_def Let_def insert_booking_def foreign_keys_hold_def
      column_values_def fits_INT_def fits_VARCHAR_def example_prices
      next_id_def or_num_cases price_or_def calculateTotalPrice_def getCorporateDetailsId_def
      example_nights example_number claimed_total_price_def)

section \<open>Properties of the booking number\<close>

lemma example_number_next: "generateBookingNumber 1766000123456 43 = ''BK1234560043''"
proof -
  have pad: "replicate 2 (CHR ''0'') = ''00''"
    by (simp add: numeral_2_eq_2)
  show ?thesis
    by (simp add: generateBookingNumber_def slice_last_def padStart_def digit_def pad)
qed

text \<open>
  C9 (amended). When the generated booking number is already stored, the INSERT is rejected
  and the request ends in the handler's \<open>catch\<close>: the caller gets 500 "Failed to create
  booking", nothing is stored, and no second number is tried.
\<close>

theorem booking_number_collision_fails:
  assumes corp: "user_identityType user = Some Corporate"
    and fields: "required_fields req = Some (hotelId, rtId, checkIn, checkOut, gName, gEmail)"
    and found: "filter (\<lambda>rt. rt_Id rt = rtId \<and> rt_HotelDetails_Id rt = hotelId \<and> rt_IsActive rt)
                  (room_types db) = roomTypeInfo # others"
    and collision: "generateBookingNumber now rnd \<in> bk_BookingNumber ` set (bookings db)"
  shows "create_booking decimalNumbers now rnd user req db
           = (Response 500 (Error ''Failed to create booking''), db)"
  using corp fields found collision
  by (simp add: create_booking_def Let_def insert_booking_collision)

theorem booking_number_collision_fails_witness:
  "create_booking False 1766000123456 42 corporate_caller (example_request (Some 1))
     (example_booked Pending)
   = (Response 500 (Error ''Failed to create booking''), example_booked Pending)"
proof -
  have corp: "user_identityType corporate_caller = Some Corporate"
    by (simp add: corporate_caller_def)
  have fields: "required_fields (example_request (Some 1)) =
      Some (1, 1, 1766188800000, 1766361600000, ''Ada'', ''ada@acme.test'')"
    by (simp add: required_fields_def example_request_def present_num_def present_str_def)
  have found: "filter (\<lambda>rt. rt_Id rt = 1 \<and> rt_HotelDetails_Id rt = 1 \<and> rt_IsActive rt)
      (room_types (example_booked Pending)) = example_room_type (Some 120) # []"
    by (simp add: example_booked_def example_catalog_def example_room_type_def)
  have collision: "generateBookingNumber 1766000123456 42
      \<in> bk_BookingNumber ` set (bookings (example_booked Pending))"
    by (simp add: example_booked_def example_booking_def example_number)
  from booking_number_collision_fails [OF corp fields found collision, of False]
  show ?thesis .
qed

text \<open>
  The claim that a collision is retried fails: the number generated at this time with this
  random part is taken, the caller gets the 500, and the database is as before, although
  the next random part would have given a free number and a booking.
\<close>

theorem booking_number_collision_counterexample:
  "generateBookingNumber 1766000123456 42
     \<in> bk_BookingNumber ` set (bookings (example_booked Pending))
   \<and> create_booking False 1766000123456 42 corporate_caller (example_request (Some 1))
       (example_booked Pending)
     = (Response 500 (Error ''Failed to create booking''), example_booked Pending)
   \<and> fst (create_booking False 1766000123456 43 corporate_caller (example_request (Some 1))
       (example_booked Pending))
     = Response 201 (BookingCreated 2 ''BK1234560043'' 240 2)"
  by (simp add: create_booking_def corporate_caller_def example_request_def example_catalog_def
      example_booked_def example_booking_def
      example_room_type_def example_account_def example_hotel_def required_fields_def
      present_num_def present_str_def Let_def insert_booking_def foreign_keys_hold_def
      column_values_def fits_INT_def fits_VARCHAR_def example_prices
      next_id_def or_num_cases price_or_def calculateTotalPrice_def getCorporateDetailsId_def
      example_nights example_number example_number_next)

section \<open>Properties of the approval workflow\<close>

lemma example_booked_bookings: "bookings (example_booked status) = [example_booking status]"
  by (simp add: example_booked_def)

lemma example_hotel_of_caller: "getHotelDetailsId (example_booked status) 3 = Some 1"
  by (simp add: getHotelDetailsId_def example_booked_def example_catalog_def example_hotel_def)

lemma example_approve:
  "bookings (snd (approve_booking 1766000123456 (hotel_caller 3) 1 (example_booked Pending)))
   = [(example_booking Confirmed)\<lparr>bk_ApprovedAt := Some 1766000123456,
        bk_UpdatedAt := 1766000123456\<rparr>]"
  by (simp add: approve_booking_def Let_def hotel_caller_def example_hotel_of_caller
      select_hotel_booking_def update_booking_def example_booked_bookings example_booking_def)

text \<open>
  C2. A hotel caller's approve or reject of a booking of their hotel that is not pending,
  and a requester's cancel of their own booking that is neither pending nor confirmed,
  answers 400 and leaves the database, so every field of the booking, as it was.
\<close>

theorem wrong_state_is_bad_request:
  "(user_identityType user = Some Hotel
      \<and> select_hotel_booking db bookingId (getHotelDetailsId db (user_id user)) = b # bs
      \<and> bk_BookingStatus b \<noteq> Pending
    \<longrightarrow> approve_booking now user bookingId db
          = (Response 400 (Error ''Only pending bookings can be approved''), db)
        \<and> reject_booking now user bookingId reason db
          = (Response 400 (Error ''Only pending bookings can be rejected''), db))
   \<and> (select_own_booking db bookingId (user_id user) = b # bs
      \<and> bk_BookingStatus b \<notin> {Pending, Confirmed}
    \<longrightarrow> cancel_booking now user bookingId db
          = (Response 400 (Error ''This booking cannot be cancelled''), db))"
  by (simp add: approve_booking_def reject_booking_def cancel_booking_def Let_def)

theorem wrong_state_is_bad_request_witness:
  "approve_booking 1766000123456 (hotel_caller 3) 1 (example_booked Confirmed)
     = (Response 400 (Error ''Only pending bookings can be approved''), example_booked Confirmed)
   \<and> reject_booking 1766000123456 (hotel_caller 3) 1 (Some ''full'') (example_booked Confirmed)
     = (Response 400 (Error ''Only pending bookings can be rejected''), example_booked Confirmed)
   \<and> cancel_booking 1766000123456 corporate_caller 1 (example_booked Rejected)
     = (Response 400 (Error ''This booking cannot be cancelled''), example_booked Rejected)"
proof -
  have hotel: "user_identityType (hotel_caller 3) = Some Hotel"
    by (simp add: hotel_caller_def)
  have theirs: "select_hotel_booking (example_booked Confirmed) 1
      (getHotelDetailsId (example_booked Confirmed) (user_id (hotel_caller 3)))
      = example_booking Confirmed # []"
    by (simp add: hotel_caller_def example_hotel_of_caller select_hotel_booking_def
        example_booked_bookings example_booking_def)
  have confirmed: "bk_BookingStatus (example_booking Confirmed) \<noteq> Pending"
    by (simp add: example_booking_def)
  have own: "select_own_booking (example_booked Rejected) 1 (user_id corporate_caller)
      = example_booking Rejected # []"
    by (simp add: select_own_booking_def example_booked_bookings example_booking_def
        corporate_caller_def)
  have rejected: "bk_BookingStatus (example_booking Rejected) \<notin> {Pending, Confirmed}"
    by (simp add: example_booking_def)
  from wrong_state_is_bad_request
    [of "hotel_caller 3" "example_booked Confirmed" 1 "example_booking Confirmed" "[]"
      1766000123456 "Some ''full''"]
    wrong_state_is_bad_request
    [of corporate_caller "example_booked Rejected" 1 "example_booking Rejected" "[]"
      1766000123456 None]
  show ?thesis
    using hotel theirs confirmed own rejected by simp
qed

text \<open>Rows of another id are not touched by an update, and the selects look among the rows
  of the id they are given.\<close>

lemma update_booking_other_id:
  assumes "j \<noteq> k" and "\<And>x. bk_Id (f x) = bk_Id x"
  shows "filter (\<lambda>x. bk_Id x = k) (bookings (update_booking j now f db))
     = filter (\<lambda>x. bk_Id x = k) (bookings db)"
proof -
  have "filter (\<lambda>x. bk_Id x = k)
          (map (\<lambda>b. if bk_Id b = j then (f b)\<lparr>bk_UpdatedAt := now\<rparr> else b) xs)
        = filter (\<lambda>x. bk_Id x = k) xs" for xs
    using assms by (induction xs) auto
  then show ?thesis
    by (simp add: update_booking_def)
qed

lemma select_hotel_booking_of_id:
  "select_hotel_booking db k h
     = filter (\<lambda>b. Some (bk_HotelDetails_Id b) = h) (filter (\<lambda>x. bk_Id x = k) (bookings db))"
  by (simp add: select_hotel_booking_def conj_commute)

lemma select_own_booking_of_id:
  "select_own_booking db k u
     = filter (\<lambda>b. bk_UserId b = u) (filter (\<lambda>x. bk_Id x = k) (bookings db))"
  by (simp add: select_own_booking_def conj_commute)

lemma approve_keeps_final:
  assumes "filter (\<lambda>x. bk_Id x = k) (bookings db) = [b]" and "bk_BookingStatus b \<noteq> Pending"
  shows "filter (\<lambda>x. bk_Id x = k) (bookings (snd (approve_booking now user j db))) = [b]"
proof (cases "j = k")
  case True
  with assms show ?thesis
    by (simp add: approve_booking_def select_hotel_booking_of_id Let_def)
next
  case False
  with assms(1) show ?thesis
    by (simp add: approve_booking_def Let_def update_booking_other_id split: list.split)
qed

lemma reject_keeps_final:
  assumes "filter (\<lambda>x. bk_Id x = k) (bookings db) = [b]" and "bk_BookingStatus b \<noteq> Pending"
  shows "filter (\<lambda>x. bk_Id x = k) (bookings (snd (reject_booking now user j reason db))) = [b]"
proof (cases "j = k")
  case True
  with assms show ?thesis
    by (simp add: reject_booking_def select_hotel_booking_of_id Let_def)
next
  case False
  with assms(1) show ?thesis
    by (simp add: reject_booking_def Let_def update_booking_other_id split: list.split)
qed

lemma cancel_keeps_final:
  assumes "filter (\<lambda>x. bk_Id x = k) (bookings db) = [b]"
    and "bk_BookingStatus b \<notin> {Pending, Confirmed}"
  shows "filter (\<lambda>x. bk_Id x = k) (bookings (snd (cancel_booking now user j db))) = [b]"
proof (cases "j = k")
  case True
  with assms show ?thesis
    by (simp add: cancel_booking_def select_own_booking_of_id)
next
  case False
  with assms(1) show ?thesis
    by (simp add: cancel_booking_def update_booking_other_id split: list.split)
qed

lemma workflow_step_keeps_final:
  assumes "filter (\<lambda>x. bk_Id x = k) (bookings db) = [b]"
    and "bk_BookingStatus b \<in> {Rejected, Cancelled, Completed}"
  shows "filter (\<lambda>x. bk_Id x = k) (bookings (workflow_step c db)) = [b]"
  using assms
  by (cases c) (auto intro: approve_keeps_final reject_keeps_final cancel_keeps_final)

text \<open>
  C3. Take a booking that is the only row of its id (\<open>Id\<close> is the primary key) and is
  rejected, cancelled or completed. After any run of approve, reject and cancel calls, by
  any callers on any ids, it is still the only row of its id and no field of it has
  changed.
\<close>

theorem final_states_never_change:
  assumes "filter (\<lambda>x. bk_Id x = k) (bookings db) = [b]"
    and "bk_BookingStatus b \<in> {Rejected, Cancelled, Completed}"
  shows "filter (\<lambda>x. bk_Id x = k) (bookings (workflow_run calls db)) = [b]"
  using assms
proof (induction calls arbitrary: db)
  case Nil
  then show ?case by simp
next
  case (Cons c calls)
  from Cons.prems have "filter (\<lambda>x. bk_Id x = k) (bookings (workflow_step c db)) = [b]"
    by (rule workflow_step_keeps_final)
  with Cons.IH Cons.prems(2) show ?case
    by simp
qed

theorem final_states_never_change_witness:
  "filter (\<lambda>x. bk_Id x = 1)
     (bookings (workflow_run
        [Approve 1766000123456 (hotel_caller 3) 1, Cancel 1766000123457 corporate_caller 1,
         Reject 1766000123458 (hotel_caller 3) 1 None]
        (example_booked Rejected)))
   = [example_booking Rejected]"
proof -
  have only: "filter (\<lambda>x. bk_Id x = 1) (bookings (example_booked Rejected))
      = [example_booking Rejected]"
    by (simp add: example_booked_bookings example_booking_def)
  have final: "bk_BookingStatus (example_booking Rejected) \<in> {Rejected, Cancelled, Completed}"
    by (simp add: example_booking_def)
  from final_states_never_change [OF only final] show ?thesis .
qed

section \<open>Properties of reading bookings\<close>

lemma example_room_name:
  "left_join_room_type (example_booked status) (example_booking status) = [Some ''Deluxe'']"
  by (simp add: left_join_room_type_def example_booked_def example_catalog_def
      example_room_type_def example_booking_def)

lemma example_hotels:
  "HotelDetails (example_booked status) = [example_hotel 1 3, example_hotel 2 4]"
  by (simp add: example_booked_def example_catalog_def)

lemma example_get_own:
  "get_booking corporate_caller 1 (example_booked Pending)
   = Response 200 (BookingDetails (example_booking Pending, ''Grand'', ''Pune'', None, Some ''Deluxe''))"
  by (simp add: get_booking_def example_booked_bookings example_hotels example_room_name
      example_hotel_def corporate_caller_def)
    (simp add: example_booking_def)

lemma example_get_hotel_list:
  "get_hotel_bookings (hotel_caller 3) None (example_booked Pending)
   = Response 200 (HotelBookings [(example_booking Pending, None, Some ''Deluxe'')])"
  by (simp add: get_hotel_bookings_def hotel_caller_def example_hotel_of_caller present_num_def
      example_booked_bookings example_room_name status_filter_def present_str_def)
    (simp add: left_join_corporate_def example_booked_def example_catalog_def example_booking_def
      status_filter_def present_str_def)

text \<open>
  C8 (amended). The caller's list holds only bookings the caller created; a hotel caller's
  hotel list holds only bookings against the caller's hotel; get-by-id returns a booking
  only to the account that created it, and answers 404 for an id none of whose rows the
  caller created, whatever hotel the booking is against.
\<close>

theorem booking_reads_are_scoped:
  "(\<exists>rows. get_bookings user status db = Response 200 (UserBookings rows)
        \<and> (\<forall>r\<in>set rows. fst r \<in> set (bookings db) \<and> bk_UserId (fst r) = user_id user))
   \<and> (\<forall>rows. get_hotel_bookings user status db = Response 200 (HotelBookings rows)
        \<longrightarrow> user_identityType user = Some Hotel
          \<and> (\<forall>r\<in>set rows. fst r \<in> set (bookings db)
                \<and> getHotelDetailsId db (user_id user) = Some (bk_HotelDetails_Id (fst r))))
   \<and> (\<forall>r. get_booking user bookingId db = Response 200 (BookingDetails r)
        \<longrightarrow> fst r \<in> set (bookings db) \<and> bk_Id (fst r) = bookingId
          \<and> bk_UserId (fst r) = user_id user)
   \<and> ((\<forall>b\<in>set (bookings db). bk_Id b = bookingId \<longrightarrow> bk_UserId b \<noteq> user_id user)
        \<longrightarrow> get_booking user bookingId db = Response 404 (Error ''Booking not found''))"
proof -
  have listed: "\<exists>rows. get_bookings user status db = Response 200 (UserBookings rows)
        \<and> (\<forall>r\<in>set rows. fst r \<in> set (bookings db) \<and> bk_UserId (fst r) = user_id user)"
    by (auto simp add: get_bookings_def dest!: in_set_takeD split: if_splits)
  have hotel: "\<forall>rows. get_hotel_bookings user status db = Response 200 (HotelBookings rows)
        \<longrightarrow> user_identityType user = Some Hotel
          \<and> (\<forall>r\<in>set rows. fst r \<in> set (bookings db)
                \<and> getHotelDetailsId db (user_id user) = Some (bk_HotelDetails_Id (fst r)))"
    by (auto simp add: get_hotel_bookings_def present_num_def
        split: if_splits option.splits dest!: in_set_takeD)
  have got: "\<forall>r. get_booking user bookingId db = Response 200 (BookingDetails r)
        \<longrightarrow> fst r \<in> set (bookings db) \<and> bk_Id (fst r) = bookingId
          \<and> bk_UserId (fst r) = user_id user"
  proof (intro allI impI)
    fix r
    assume "get_booking user bookingId db = Response 200 (BookingDetails r)"
    then obtain rs where sel:
      "[(b, hd_HotelName h, hd_City h, hd_Address h, n).
          b \<leftarrow> bookings db, h \<leftarrow> HotelDetails db, bk_HotelDetails_Id b = hd_Id h,
          n \<leftarrow> left_join_room_type db b,
          bk_Id b = bookingId, bk_UserId b = user_id user] = r # rs"
      by (auto simp add: get_booking_def split: list.splits)
    have "r \<in> set (r # rs)"
      by simp
    then show "fst r \<in> set (bookings db) \<and> bk_Id (fst r) = bookingId
        \<and> bk_UserId (fst r) = user_id user"
      unfolding sel [symmetric] by (auto split: if_splits)
  qed
  have hidden: "(\<forall>b\<in>set (bookings db). bk_Id b = bookingId \<longrightarrow> bk_UserId b \<noteq> user_id user)
        \<longrightarrow> get_booking user bookingId db = Response 404 (Error ''Booking not found'')"
  proof
    assume "\<forall>b\<in>set (bookings db). bk_Id b = bookingId \<longrightarrow> bk_UserId b \<noteq> user_id user"
    then have none: "[(b, hd_HotelName h, hd_City h, hd_Address h, n).
          b \<leftarrow> bookings db, h \<leftarrow> HotelDetails db, bk_HotelDetails_Id b = hd_Id h,
          n \<leftarrow> left_join_room_type db b,
          bk_Id b = bookingId, bk_UserId b = user_id user] = []"
      by auto
    show "get_booking user bookingId db = Response 404 (Error ''Booking not found'')"
      by (simp only: get_booking_def none list.case)
  qed
  show ?thesis
    by (rule conjI [OF listed conjI [OF hotel conjI [OF got hidden]]])
qed

theorem booking_reads_are_scoped_witness:
  "get_booking corporate_caller 1 (example_booked Pending)
     = Response 200
         (BookingDetails (example_booking Pending, ''Grand'', ''Pune'', None, Some ''Deluxe''))
   \<and> bk_UserId (example_booking Pending) = user_id corporate_caller
   \<and> get_hotel_bookings (hotel_caller 3) None (example_booked Pending)
     = Response 200 (HotelBookings [(example_booking Pending, None, Some ''Deluxe'')])
   \<and> getHotelDetailsId (example_booked Pending) (user_id (hotel_caller 3))
     = Some (bk_HotelDetails_Id (example_booking Pending))
   \<and> get_booking (hotel_caller 3) 1 (example_booked Pending)
     = Response 404 (Error ''Booking not found'')"
proof -
  have others: "\<forall>b\<in>set (bookings (example_booked Pending)).
      bk_Id b = 1 \<longrightarrow> bk_UserId b \<noteq> user_id (hotel_caller 3)"
    by (simp add: example_booked_bookings example_booking_def hotel_caller_def)
  from booking_reads_are_scoped [of corporate_caller None "example_booked Pending" 1]
    booking_reads_are_scoped [of "hotel_caller 3" None "example_booked Pending" 1]
    example_get_own example_get_hotel_list others
  show ?thesis
    by simp
qed

text \<open>
  The claim that a hotel caller gets a booking against their hotel by id fails: booking 1
  is against hotel 1 of account 3, and that account's get-by-id answers 404.
\<close>

theorem booking_reads_are_scoped_counterexample:
  "user_identityType (hotel_caller 3) = Some Hotel
   \<and> getHotelDetailsId (example_booked Pending) (user_id (hotel_caller 3))
     = Some (bk_HotelDetails_Id (example_booking Pending))
   \<and> bookings (example_booked Pending) = [example_booking Pending]
   \<and> bk_Id (example_booking Pending) = 1
   \<and> get_booking (hotel_caller 3) 1 (example_booked Pending)
     = Response 404 (Error ''Booking not found'')"
  by (simp add: hotel_caller_def example_hotel_of_caller get_booking_def example_booked_bookings
      example_hotels example_room_name)
    (simp add: example_booking_def)

section \<open>Properties of login\<close>

lemma example_login:
  "login example_env \<lparr>email = ''ada@acme.test'', password = JString ''correct horse''\<rparr>
     example_accounts
   = Response 200 (LoggedIn ''signed'' 7 ''ada@acme.test'' ''user'' None (Some Corporate) True)"
  by (simp add: login_def loginValidation_def generateToken_def present_str_def
      compare_password_def example_accounts_def example_catalog_def
      example_account_def example_env_def)

text \<open>
  The two answers the claim compares: a valid login that finds no active account under the
  e-mail, and one that finds an account whose stored hash \<open>bcrypt.compare\<close> reports as not
  matching the given text, both get 401 "Invalid credentials".
\<close>

lemma login_unknown_email:
  assumes "loginValidation env req = []"
    and "filter (\<lambda>u. u_email u = normalizeEmail env (email req) \<and> u_isActive u) (users db) = []"
  shows "login env req db = Response 401 (Error ''Invalid credentials'')"
  using assms by (simp add: login_def)

lemma login_password_mismatch:
  assumes "loginValidation env req = []"
    and "filter (\<lambda>u. u_email u = normalizeEmail env (email req) \<and> u_isActive u) (users db)
           = user # others"
    and "password req = JString pw" and "u_password user = Some hash"
    and "\<not> bcrypt_compare env pw hash"
  shows "login env req db = Response 401 (Error ''Invalid credentials'')"
  using assms by (simp add: login_def compare_password_def)

text \<open>
  The answers that tell an account from no account: whenever the comparison throws, for an
  account without a local password and any password, or for any account and a numeric
  password, the handler's \<open>catch\<close> answers 500 "Login failed".
\<close>

lemma login_without_local_password:
  assumes "loginValidation env req = []"
    and "filter (\<lambda>u. u_email u = normalizeEmail env (email req) \<and> u_isActive u) (users db)
           = user # others"
    and "u_password user = None"
  shows "login env req db = Response 500 (Error ''Login failed'')"
  using assms by (simp add: login_def compare_password_def split: json_value.split)

lemma login_numeric_password:
  assumes "isEmail env (email req)"
    and "filter (\<lambda>u. u_email u = normalizeEmail env (email req) \<and> u_isActive u) (users db)
           = user # others"
    and "password req = JNumber n"
  shows "login env req db = Response 500 (Error ''Login failed'')"
  using assms by (simp add: login_def compare_password_def loginValidation_def)

text \<open>
  C4. The claim fails on the code: the handler means to hide whether an e-mail has an
  account ("Don't reveal whether email exists"), and a wrong password for the account of
  \<open>ada@acme.test\<close> is answered like the unknown \<open>nobody@acme.test\<close>, with 401 "Invalid
  credentials"; but the same wrong password for \<open>gina@acme.test\<close>, an account created by
  the Google callback, is answered with 500 "Login failed", and so is a numeric password
  for the account of \<open>ada@acme.test\<close>, while the unknown e-mail still gets the 401. The
  caller can tell that these e-mails have accounts.
\<close>

theorem login_reveals_account:
  "login example_env \<lparr>email = ''nobody@acme.test'', password = JString ''guess''\<rparr>
     example_accounts
     = Response 401 (Error ''Invalid credentials'')
   \<and> login example_env \<lparr>email = ''ada@acme.test'', password = JString ''guess''\<rparr>
       example_accounts
     = Response 401 (Error ''Invalid credentials'')
   \<and> login example_env \<lparr>email = ''gina@acme.test'', password = JString ''guess''\<rparr>
       example_accounts
     = Response 500 (Error ''Login failed'')
   \<and> login example_env \<lparr>email = ''nobody@acme.test'', password = JNumber 123456\<rparr>
       example_accounts
     = Response 401 (Error ''Invalid credentials'')
   \<and> login example_env \<lparr>email = ''ada@acme.test'', password = JNumber 123456\<rparr>
       example_accounts
     = Response 500 (Error ''Login failed'')"
  by (simp add: login_def loginValidation_def compare_password_def example_accounts_def
      example_catalog_def example_account_def example_env_def)

section \<open>Properties of the catalog routes\<close>

lemma filter_empty_others: "\<forall>x\<in>set xs. P x \<longrightarrow> \<not> Q x \<Longrightarrow> filter (\<lambda>x. P x \<and> Q x) xs = []"
  by (induction xs) auto

lemma example_hotel_of_owner:
  "getHotelDetailsId example_posted 3 = Some 1" "getHotelDetailsId example_posted 4 = Some 2"
  by (simp_all add: getHotelDetailsId_def example_posted_def example_catalog_def example_hotel_def)

text \<open>
  C5. A hotel caller who updates or deletes a marketing post or a room type none of whose
  rows of that id belongs to the caller's hotel gets 404 (for want of a hotel profile or of
  an owned record), never 403, and the database is unchanged.
\<close>

theorem cross_hotel_mutation_not_found:
  assumes hotel: "user_identityType user = Some Hotel"
  shows "((\<forall>x\<in>set (HotelPosts db). hp_Id x = postId
             \<longrightarrow> getHotelDetailsId db (user_id user) \<noteq> Some (hp_HotelDetails_Id x))
          \<longrightarrow> snd (update_post user postId p db) = db
            \<and> snd (delete_post user postId db) = db
            \<and> fst (update_post user postId p db)
                \<in> {Response 404 (Error ''Hotel profile not found''),
                    Response 404 (Error ''Post not found or unauthorized'')}
            \<and> fst (delete_post user postId db)
                \<in> {Response 404 (Error ''Hotel profile not found''),
                    Response 404 (Error ''Post not found or unauthorized'')})
       \<and> ((\<forall>x\<in>set (room_types db). rt_Id x = rtId
             \<longrightarrow> getHotelDetailsId db (user_id user) \<noteq> Some (rt_HotelDetails_Id x))
          \<longrightarrow> snd (update_room_type user rtId r db) = db
            \<and> snd (delete_room_type user rtId db) = db
            \<and> fst (update_room_type user rtId r db)
                \<in> {Response 404 (Error ''Hotel profile not found''),
                    Response 404 (Error ''Room type not found or unauthorized'')}
            \<and> fst (delete_room_type user rtId db)
                \<in> {Response 404 (Error ''Hotel profile not found''),
                    Response 404 (Error ''Room type not found or unauthorized'')})"
proof (intro conjI impI)
  assume other: "\<forall>x\<in>set (HotelPosts db). hp_Id x = postId
      \<longrightarrow> getHotelDetailsId db (user_id user) \<noteq> Some (hp_HotelDetails_Id x)"
  have none: "filter (\<lambda>x. hp_Id x = postId \<and> hp_HotelDetails_Id x = hd_Id h) (HotelPosts db) = []"
    if "filter (\<lambda>h. hd_userId h = user_id user) (HotelDetails db) = h # hs" for h hs
    using other that by (intro filter_empty_others) (auto simp add: getHotelDetailsId_def)
  show "snd (update_post user postId p db) = db"
    using hotel none by (simp add: update_post_def split: list.split)
  show "snd (delete_post user postId db) = db"
    using hotel none by (simp add: delete_post_def split: list.split)
  show "fst (update_post user postId p db)
      \<in> {Response 404 (Error ''Hotel profile not found''),
          Response 404 (Error ''Post not found or unauthorized'')}"
    using hotel none by (simp add: update_post_def split: list.split)
  show "fst (delete_post user postId db)
      \<in> {Response 404 (Error ''Hotel profile not found''),
          Response 404 (Error ''Post not found or unauthorized'')}"
    using hotel none by (simp add: delete_post_def split: list.split)
next
  assume other: "\<forall>x\<in>set (room_types db). rt_Id x = rtId
      \<longrightarrow> getHotelDetailsId db (user_id user) \<noteq> Some (rt_HotelDetails_Id x)"
  have none: "filter (\<lambda>x. rt_Id x = rtId \<and> rt_HotelDetails_Id x = h) (room_types db) = []"
    if "present_num (getHotelDetailsId db (user_id user)) = Some h" for h
    using other that
    by (intro filter_empty_others) (auto simp add: present_num_def split: option.splits if_splits)
  show "snd (update_room_type user rtId r db) = db"
    using hotel none by (simp add: update_room_type_def split: option.split)
  show "snd (delete_room_type user rtId db) = db"
    using hotel none by (simp add: delete_room_type_def split: option.split)
  show "fst (update_room_type user rtId r db)
      \<in> {Response 404 (Error ''Hotel profile not found''),
          Response 404 (Error ''Room type not found or unauthorized'')}"
    using hotel none by (simp add: update_room_type_def split: option.split)
  show "fst (delete_room_type user rtId db)
      \<in> {Response 404 (Error ''Hotel profile not found''),
          Response 404 (Error ''Room type not found or unauthorized'')}"
    using hotel none by (simp add: delete_room_type_def split: option.split)
qed

theorem cross_hotel_mutation_not_found_witness:
  "snd (update_post (hotel_caller 4) 1 title_only example_posted) = example_posted
   \<and> snd (delete_post (hotel_caller 4) 1 example_posted) = example_posted
   \<and> fst (update_post (hotel_caller 4) 1 title_only example_posted)
       \<in> {Response 404 (Error ''Hotel profile not found''),
           Response 404 (Error ''Post not found or unauthorized'')}
   \<and> fst (delete_post (hotel_caller 4) 1 example_posted)
       \<in> {Response 404 (Error ''Hotel profile not found''),
           Response 404 (Error ''Post not found or unauthorized'')}
   \<and> snd (update_room_type (hotel_caller 4) 1 name_only example_posted) = example_posted
   \<and> snd (delete_room_type (hotel_caller 4) 1 example_posted) = example_posted
   \<and> fst (update_room_type (hotel_caller 4) 1 name_only example_posted)
       \<in> {Response 404 (Error ''Hotel profile not found''),
           Response 404 (Error ''Room type not found or unauthorized'')}
   \<and> fst (delete_room_type (hotel_caller 4) 1 example_posted)
       \<in> {Response 404 (Error ''Hotel profile not found''),
           Response 404 (Error ''Room type not found or unauthorized'')}"
proof -
  have hotel: "user_identityType (hotel_caller 4) = Some Hotel"
    by (simp add: hotel_caller_def)
  have post: "\<forall>x\<in>set (HotelPosts example_posted). hp_Id x = 1
      \<longrightarrow> getHotelDetailsId example_posted (user_id (hotel_caller 4)) \<noteq> Some (hp_HotelDetails_Id x)"
    by (simp add: hotel_caller_def example_hotel_of_owner)
      (simp add: example_posted_def example_post_def)
  have room: "\<forall>x\<in>set (room_types example_posted). rt_Id x = 1
      \<longrightarrow> getHotelDetailsId example_posted (user_id (hotel_caller 4)) \<noteq> Some (rt_HotelDetails_Id x)"
    by (simp add: hotel_caller_def example_hotel_of_owner)
      (simp add: example_posted_def example_catalog_def example_room_type_def)
  from cross_hotel_mutation_not_found [OF hotel, of example_posted 1 title_only 1 name_only]
    post room
  show ?thesis
    by blast
qed

text \<open>
  C6. The owner of post 1 sends an update that carries only a new title. The update succeeds
  and overwrites what the payload leaves unset: the description becomes empty, and the
  prices and dates become NULL.
\<close>

theorem update_post_overwrites_unset_fields:
  "update_post (hotel_caller 3) 1 title_only example_posted
   = (Response 200 (Message ''Post updated successfully''),
      example_posted\<lparr>HotelPosts :=
        [\<lparr>hp_Id = 1, hp_HotelDetails_Id = 1, hp_Title = ''Spring offer'',
          hp_Description = Some [], hp_Price = None, hp_MinPrice = None, hp_MaxPrice = None,
          hp_AvailableDate = None, hp_StartDate = None, hp_EndDate = None,
          hp_CreatedAt = 1765000000000\<rparr>]\<rparr>)
   \<and> hp_Description example_post = Some ''Sea view, breakfast included''
   \<and> hp_Price example_post = Some 100"
  by (simp add: update_post_def hotel_caller_def example_posted_def example_catalog_def
      example_hotel_def example_post_def title_only_def present_str_def present_num_def)

text \<open>
  The room-type update does keep what the payload leaves unset: every stored row survives a
  successful update with its id and hotel, and with each column whose payload field is
  absent.
\<close>

lemma update_room_type_keeps_unset_fields:
  assumes "update_room_type user rtId p db = (Response 200 body, db')"
    and "x \<in> set (room_types db)"
  shows "\<exists>y\<in>set (room_types db').
           rt_Id y = rt_Id x \<and> rt_HotelDetails_Id y = rt_HotelDetails_Id x
           \<and> (rtp_name p = None \<longrightarrow> rt_Name y = rt_Name x)
           \<and> (rtp_description p = None \<longrightarrow> rt_Description y = rt_Description x)
           \<and> (rtp_capacity p = None \<longrightarrow> rt_Capacity y = rt_Capacity x)
           \<and> (rtp_basePrice p = None \<longrightarrow> rt_BasePrice y = rt_BasePrice x)
           \<and> (rtp_corporatePrice p = None \<longrightarrow> rt_CorporatePrice y = rt_CorporatePrice x)
           \<and> (rtp_amenities p = None \<longrightarrow> rt_Amenities y = rt_Amenities x)
           \<and> (rtp_isActive p = None \<longrightarrow> rt_IsActive y = rt_IsActive x)"
proof -
  define f :: "room_type \<Rightarrow> room_type" where "f = (\<lambda>x. if rt_Id x = rtId
      then x\<lparr>rt_Name := COALESCE (present_str (rtp_name p)) (rt_Name x),
             rt_Description :=
               (case present_str (rtp_description p) of
                  None \<Rightarrow> rt_Description x | Some d \<Rightarrow> Some d),
             rt_Capacity := COALESCE (present_num (rtp_capacity p)) (rt_Capacity x),
             rt_BasePrice := COALESCE (present_num (rtp_basePrice p)) (rt_BasePrice x),
             rt_CorporatePrice :=
               (case present_num (rtp_corporatePrice p) of
                  None \<Rightarrow> rt_CorporatePrice x | Some c \<Rightarrow> Some c),
             rt_Amenities := (case rtp_amenities p of None \<Rightarrow> rt_Amenities x | Some a \<Rightarrow> Some a),
             rt_IsActive := COALESCE (rtp_isActive p) (rt_IsActive x)\<rparr>
      else x)"
  define y where "y = f x"
  from assms(1) have "db' = db\<lparr>room_types := map f (room_types db)\<rparr>"
    by (simp add: update_room_type_def f_def split: if_splits option.splits list.splits)
  then have rows: "set (room_types db') = f ` set (room_types db)"
    by simp
  have member: "y \<in> set (room_types db')"
    unfolding rows y_def using assms(2) by (rule imageI)
  have kept: "rt_Id y = rt_Id x \<and> rt_HotelDetails_Id y = rt_HotelDetails_Id x
           \<and> (rtp_name p = None \<longrightarrow> rt_Name y = rt_Name x)
           \<and> (rtp_description p = None \<longrightarrow> rt_Description y = rt_Description x)
           \<and> (rtp_capacity p = None \<longrightarrow> rt_Capacity y = rt_Capacity x)
           \<and> (rtp_basePrice p = None \<longrightarrow> rt_BasePrice y = rt_BasePrice x)
           \<and> (rtp_corporatePrice p = None \<longrightarrow> rt_CorporatePrice y = rt_CorporatePrice x)
           \<and> (rtp_amenities p = None \<longrightarrow> rt_Amenities y = rt_Amenities x)
           \<and> (rtp_isActive p = None \<longrightarrow> rt_IsActive y = rt_IsActive x)"
    by (simp add: y_def f_def COALESCE_def present_str_def present_num_def)
  show ?thesis
    by (rule bexI [where x = y], rule kept, rule member)
qed

section \<open>Properties of the hotel search\<close>

lemma fold_max_member: "fold max ys (x::'a::linorder) \<in> insert x (set ys)"
  by (induction ys arbitrary: x) (auto simp add: max_def)

lemma sql_max_member: "sql_max xs = Some m \<Longrightarrow> m \<in> set xs"
  using fold_max_member by (fastforce simp add: sql_max_def split: list.splits)

lemma set_order_by: "set (order_by sortBy rows) = set rows"
  by (simp add: order_by_def)

lemma filtered_hotels_row:
  assumes "r \<in> set (filtered_hotels like q db)"
  shows "\<exists>h\<in>set (HotelDetails db). r = hotel_row db h \<and> where_clause like q h
           \<and> having_clause q r
           \<and> (\<exists>u\<in>set (users db). hd_userId h = u_id u \<and> u_isProfileCompleted u)"
  using assms by (auto simp add: filtered_hotels_def split: if_splits)

lemma search_hotels_page:
  assumes "search_hotels like q db = Response st (HotelPage hotels n pageNum limitNum totalPages)"
  shows "set hotels \<subseteq> set (filtered_hotels like q db)
       \<and> n = length (filtered_hotels like q db)"
proof -
  from assms obtain k m where
    "hotels = take k (drop m (order_by (q_sortBy q) (filtered_hotels like q db)))"
    and "n = length (filtered_hotels like q db)"
    by (auto simp add: search_hotels_def Let_def)
  then show ?thesis
    by (auto dest!: in_set_takeD in_set_dropD simp add: set_order_by)
qed

lemma hotel_row_fields:
  "hs_hotel (hotel_row db h) = h"
  "hs_roomTypeCount (hotel_row db h) = length (active_room_types db (hd_Id h))"
  "hs_maxCapacity (hotel_row db h) = sql_max (map rt_Capacity (active_room_types db (hd_Id h)))"
  by (simp_all add: hotel_row_def Let_def)

lemma hotel_row_HotelDetails_update:
  "hotel_row (db\<lparr>HotelDetails := hs\<rparr>) = hotel_row db"
  by (rule ext) (simp add: hotel_row_def active_room_types_def)

lemma join_no_owner:
  assumes "\<not> (\<exists>u\<in>set us. hd_userId h = u_id u \<and> u_isProfileCompleted u)"
  shows "[f h. u \<leftarrow> us, hd_userId h = u_id u, u_isProfileCompleted u, W h] = []"
proof -
  have "(if hd_userId h = u_id u then if u_isProfileCompleted u then if W h then [f h] else []
          else [] else []) = []" if "u \<in> set us" for u
  proof (cases "hd_userId h = u_id u \<and> u_isProfileCompleted u")
    case True
    with assms that show ?thesis by blast
  next
    case False
    then show ?thesis by (simp only: de_Morgan_conj) (erule disjE, simp_all only: if_False if_True if_cancel)
  qed
  then show ?thesis
    by (simp only: concat_eq_Nil_conv set_map) blast
qed

lemma join_skips_incomplete:
  "[f h. h \<leftarrow> filter (\<lambda>h. \<exists>u\<in>set us. hd_userId h = u_id u \<and> u_isProfileCompleted u) hs,
         u \<leftarrow> us, hd_userId h = u_id u, u_isProfileCompleted u, W h]
   = [f h. h \<leftarrow> hs, u \<leftarrow> us, hd_userId h = u_id u, u_isProfileCompleted u, W h]"
proof (induction hs)
  case Nil
  show ?case
    by (simp only: filter.simps)
next
  case (Cons h hs)
  show ?case
  proof (cases "\<exists>u\<in>set us. hd_userId h = u_id u \<and> u_isProfileCompleted u")
    case True
    show ?thesis
      by (simp only: filter.simps True if_True list.map concat.simps Cons)
  next
    case False
    show ?thesis
      by (simp only: filter.simps False if_False list.map concat.simps Cons
          join_no_owner [OF False] append_Nil)
  qed
qed


lemma filtered_hotels_completed_only:
  "filtered_hotels like q
      (db\<lparr>HotelDetails :=
         filter (\<lambda>h. \<exists>u\<in>set (users db). hd_userId h = u_id u \<and> u_isProfileCompleted u)
           (HotelDetails db)\<rparr>)
    = filtered_hotels like q db"
proof -
  have "filtered_hotels like q
      (db\<lparr>HotelDetails :=
         filter (\<lambda>h. \<exists>u\<in>set (users db). hd_userId h = u_id u \<and> u_isProfileCompleted u)
           (HotelDetails db)\<rparr>)
    = filter (having_clause q)
       [hotel_row db h.
          h \<leftarrow> filter (\<lambda>h. \<exists>u\<in>set (users db). hd_userId h = u_id u \<and> u_isProfileCompleted u)
                 (HotelDetails db),
          u \<leftarrow> users db, hd_userId h = u_id u, u_isProfileCompleted u, where_clause like q h]"
  proof -
    have tables: "users (db\<lparr>HotelDetails := hs\<rparr>) = users db"
      "HotelDetails (db\<lparr>HotelDetails := hs\<rparr>) = hs" for hs
      by simp_all
    show ?thesis
      unfolding filtered_hotels_def hotel_row_HotelDetails_update tables ..
  qed
  also have "\<dots> = filtered_hotels like q db"
    unfolding filtered_hotels_def by (simp only: join_skips_incomplete)
  finally show ?thesis .
qed

lemma example_active:
  "active_room_types example_listing 1 = [example_room_type (Some 120)]"
  "active_room_types example_listing 2
     = [(example_room_type None)\<lparr>rt_Id := 2, rt_HotelDetails_Id := 2, rt_Capacity := 4\<rparr>]"
  "active_room_types example_listing 3
     = [(example_room_type None)\<lparr>rt_Id := 3, rt_HotelDetails_Id := 3, rt_Capacity := 4\<rparr>]"
  "active_room_types example_listing 4 = []"
  by (simp_all add: active_room_types_def example_listing_def example_room_type_def)

lemma example_filtered_guests:
  "filtered_hotels example_like (example_query (Some 3)) example_listing
     = [hotel_row example_listing (example_hotel 2 4)]"
  by (simp add: filtered_hotels_def example_listing_def example_account_def example_hotel_def
      where_clause_def like_filter_def present_str_def example_like_def example_query_def
      having_clause_def hotel_row_def Let_def active_room_types_def example_room_type_def
      sql_max_def sql_min_def)

lemma example_filtered_all:
  "filtered_hotels example_like (example_query None) example_listing
     = [hotel_row example_listing (example_hotel 1 3), hotel_row example_listing (example_hotel 2 4)]"
  by (simp add: filtered_hotels_def example_listing_def example_account_def example_hotel_def
      where_clause_def like_filter_def present_str_def example_like_def example_query_def
      having_clause_def hotel_row_def Let_def active_room_types_def example_room_type_def
      sql_max_def sql_min_def)


lemma example_search_guests:
  "search_hotels example_like (example_query (Some 3)) example_listing
   = Response 200 (HotelPage [hotel_row example_listing (example_hotel 2 4)] 1 1 12 1)"
  unfolding search_hotels_def example_filtered_guests
  by (simp add: Let_def example_query_def order_by_def or_num_cases ceiling_eq_iff)

lemma example_search_all:
  "search_hotels example_like (example_query None) example_listing
   = Response 200
       (HotelPage [hotel_row example_listing (example_hotel 1 3),
                   hotel_row example_listing (example_hotel 2 4)] 2 1 12 1)"
  unfolding search_hotels_def example_filtered_all
  by (simp add: Let_def example_query_def order_by_def or_num_cases hotel_row_fields
      example_hotel_def ceiling_eq_iff)

lemma example_hidden_hotel:
  "example_hotel 3 5 \<in> set (HotelDetails example_listing)
   \<and> filter (\<lambda>h. \<exists>u\<in>set (users example_listing). hd_userId h = u_id u \<and> u_isProfileCompleted u)
       (HotelDetails example_listing)
     = [example_hotel 1 3, example_hotel 2 4, example_hotel 4 6]"
  by (simp add: example_listing_def example_hotel_def example_account_def)

text \<open>
  C7. In the page of a search with a guests filter of \<open>g\<close> guests, \<open>g\<close> a positive
  whole number, no row is of a hotel all of whose active room types have a capacity below
  \<open>g\<close>, whatever the other filters; and in the page of any search no row is of a hotel
  without active room types.
\<close>

theorem search_excludes_hotels_without_capacity:
  assumes res: "search_hotels like q db = Response st (HotelPage hotels n pageNum limitNum totalPages)"
  shows "(q_guests q = Some (of_int g) \<and> 0 < g
            \<and> (\<forall>rt\<in>set (active_room_types db hotelId). rt_Capacity rt < g)
          \<longrightarrow> (\<forall>r\<in>set hotels. hd_Id (hs_hotel r) \<noteq> hotelId))
       \<and> (active_room_types db hotelId = []
          \<longrightarrow> (\<forall>r\<in>set hotels. hd_Id (hs_hotel r) \<noteq> hotelId))"
proof (intro conjI impI ballI)
  fix r
  assume small: "q_guests q = Some (of_int g) \<and> 0 < g
      \<and> (\<forall>rt\<in>set (active_room_types db hotelId). rt_Capacity rt < g)"
    and "r \<in> set hotels"
  with search_hotels_page [OF res] have "r \<in> set (filtered_hotels like q db)"
    by auto
  from filtered_hotels_row [OF this] obtain h
    where r: "r = hotel_row db h" and having: "having_clause q r"
    by auto
  show "hd_Id (hs_hotel r) \<noteq> hotelId"
  proof
    assume "hd_Id (hs_hotel r) = hotelId"
    with r have h: "hd_Id h = hotelId"
      by (simp add: hotel_row_fields)
    from having small obtain c
      where "sql_max (map rt_Capacity (active_room_types db hotelId)) = Some c" and "g \<le> c"
      by (auto simp add: having_clause_def r hotel_row_fields h Let_def split: option.splits)
    with sql_max_member have "\<exists>rt\<in>set (active_room_types db hotelId). g \<le> rt_Capacity rt"
      by fastforce
    with small show False
      by fastforce
  qed
next
  fix r
  assume none: "active_room_types db hotelId = []" and "r \<in> set hotels"
  with search_hotels_page [OF res] have "r \<in> set (filtered_hotels like q db)"
    by auto
  from filtered_hotels_row [OF this] obtain h
    where r: "r = hotel_row db h" and having: "having_clause q r"
    by auto
  from having have "0 < length (active_room_types db (hd_Id h))"
    by (simp add: having_clause_def r hotel_row_fields)
  with none show "hd_Id (hs_hotel r) \<noteq> hotelId"
    by (auto simp add: r hotel_row_fields)
qed

theorem search_excludes_hotels_without_capacity_witness:
  "search_hotels example_like (example_query (Some 3)) example_listing
     = Response 200 (HotelPage [hotel_row example_listing (example_hotel 2 4)] 1 1 12 1)
   \<and> hd_Id (hs_hotel (hotel_row example_listing (example_hotel 2 4))) \<noteq> 1
   \<and> hd_Id (hs_hotel (hotel_row example_listing (example_hotel 2 4))) \<noteq> 4"
proof -
  have guests: "q_guests (example_query (Some 3)) = Some (of_int 3) \<and> (0::int) < 3
      \<and> (\<forall>rt\<in>set (active_room_types example_listing 1). rt_Capacity rt < 3)"
    by (simp add: example_query_def example_active example_room_type_def)
  have none: "active_room_types example_listing 4 = []"
    by (rule example_active)
  from search_excludes_hotels_without_capacity [OF example_search_guests, of 3 1] guests
    search_excludes_hotels_without_capacity [OF example_search_guests, of 3 4] none
  have "(\<forall>r\<in>set [hotel_row example_listing (example_hotel 2 4)]. hd_Id (hs_hotel r) \<noteq> 1)
      \<and> (\<forall>r\<in>set [hotel_row example_listing (example_hotel 2 4)]. hd_Id (hs_hotel r) \<noteq> 4)"
    by blast
  with example_search_guests show ?thesis
    by simp
qed

text \<open>
  C10. Every hotel in the page of a search is owned by an account whose profile is
  completed, and the whole response, page and total, is the one the search gives on the
  database without the hotels that have no such owner.
\<close>

theorem search_only_completed_profiles:
  assumes res: "search_hotels like q db = Response st (HotelPage hotels n pageNum limitNum totalPages)"
  shows "(\<forall>r\<in>set hotels. \<exists>u\<in>set (users db).
            hd_userId (hs_hotel r) = u_id u \<and> u_isProfileCompleted u)
       \<and> search_hotels like q
           (db\<lparr>HotelDetails :=
              filter (\<lambda>h. \<exists>u\<in>set (users db). hd_userId h = u_id u \<and> u_isProfileCompleted u)
                (HotelDetails db)\<rparr>)
         = search_hotels like q db"
proof
  show "\<forall>r\<in>set hotels. \<exists>u\<in>set (users db).
      hd_userId (hs_hotel r) = u_id u \<and> u_isProfileCompleted u"
  proof
    fix r
    assume "r \<in> set hotels"
    with search_hotels_page [OF res] have "r \<in> set (filtered_hotels like q db)"
      by auto
    from filtered_hotels_row [OF this]
    show "\<exists>u\<in>set (users db). hd_userId (hs_hotel r) = u_id u \<and> u_isProfileCompleted u"
      by (auto simp add: hotel_row_fields)
  qed
  show "search_hotels like q
      (db\<lparr>HotelDetails :=
         filter (\<lambda>h. \<exists>u\<in>set (users db). hd_userId h = u_id u \<and> u_isProfileCompleted u)
           (HotelDetails db)\<rparr>)
    = search_hotels like q db"
    by (simp only: search_hotels_def filtered_hotels_completed_only)
qed

theorem search_only_completed_profiles_witness:
  "(\<exists>u\<in>set (users example_listing).
      hd_userId (hs_hotel (hotel_row example_listing (example_hotel 1 3))) = u_id u
      \<and> u_isProfileCompleted u)
   \<and> (\<exists>u\<in>set (users example_listing).
      hd_userId (hs_hotel (hotel_row example_listing (example_hotel 2 4))) = u_id u
      \<and> u_isProfileCompleted u)
   \<and> search_hotels example_like (example_query None)
       (example_listing\<lparr>HotelDetails := [example_hotel 1 3, example_hotel 2 4, example_hotel 4 6]\<rparr>)
     = search_hotels example_like (example_query None) example_listing"
proof -
  from search_only_completed_profiles [OF example_search_all]
  have "(\<forall>r\<in>set [hotel_row example_listing (example_hotel 1 3),
                hotel_row example_listing (example_hotel 2 4)].
          \<exists>u\<in>set (users example_listing). hd_userId (hs_hotel r) = u_id u \<and> u_isProfileCompleted u)
      \<and> search_hotels example_like (example_query None)
          (example_listing\<lparr>HotelDetails :=
             filter (\<lambda>h. \<exists>u\<in>set (users example_listing).
                       hd_userId h = u_id u \<and> u_isProfileCompleted u)
               (HotelDetails example_listing)\<rparr>)
        = search_hotels example_like (example_query None) example_listing" .
  then show ?thesis
    unfolding conjunct2 [OF example_hidden_hotel] by simp
qed

end
